theory Spec2Isabelle
  imports Main "HOL-Library.AList"
begin

section \<open>NuxtShip: bootstrap scripts and the auth-context middleware\<close>

text \<open>
  The development embeds the TypeScript sources of the repository:
  \<^item> \<^verbatim>\<open>deployment/scripts/setup-env.ts\<close> (the environment initializer),
  \<^item> the revisions of \<^verbatim>\<open>deployment/scripts/cleanup-template.ts\<close> (the template cleanup),
  \<^item> the revisions of \<^verbatim>\<open>server/middleware/auth-context.ts\<close> and
    \<^verbatim>\<open>server/utils/auth.ts\<close> (the auth-context bridge).

  Files are state that is passed explicitly; an exception of the source is a value
  \<open>Inl e\<close>, and each \<^verbatim>\<open>try/catch\<close> of the source is a case split on it. The
  messages the scripts print are not part of the state; the errors the middleware logs are.

  A JavaScript string is modelled as a \<open>string\<close> whose characters are the code units
  of the JavaScript string; the model therefore covers text whose code units are below 256
  (ASCII and Latin-1).
\<close>

subsection \<open>The file system of the environment initializer\<close>

text \<open>
  \<^verbatim>\<open>setup-env.ts\<close> looks at two paths of the working directory. \<open>None\<close> is a path
  that does not exist. \<open>writable\<close> says whether a modification of the directory succeeds;
  when it is \<open>False\<close>, \<^verbatim>\<open>copyFileSync\<close> throws.
\<close>

record env_fs =
  dot_env :: "string option"
  dot_env_example :: "string option"
  fs_writable :: bool

datatype io_error = ENOENT | EACCES | SyntaxError

text \<open>\<^verbatim>\<open>existsSync(path)\<close>\<close>

definition existsSync :: "string option \<Rightarrow> bool" where
  "existsSync f = (f \<noteq> None)"

text \<open>\<^verbatim>\<open>copyFileSync(envExamplePath, envPath)\<close>: the target receives the bytes of the source.\<close>

definition copyFileSync :: "env_fs \<Rightarrow> io_error + env_fs" where
  "copyFileSync fs =
     (case dot_env_example fs of
        None \<Rightarrow> Inl ENOENT
      | Some bytes \<Rightarrow>
          if fs_writable fs then Inr (fs\<lparr>dot_env := Some bytes\<rparr>) else Inl EACCES)"

text \<open>
  \<^verbatim>\<open>main\<close> of \<^verbatim>\<open>setup-env.ts\<close>. The result is the file system the process leaves
  and its exit status: \<open>0\<close> when \<^verbatim>\<open>main\<close> returns, \<open>1\<close> at each
  \<^verbatim>\<open>process.exit(1)\<close>.
\<close>

definition main_setup_env :: "env_fs \<Rightarrow> env_fs \<times> nat" where
  "main_setup_env fs =
     (if existsSync (dot_env fs) then (fs, 0)
      else if \<not> existsSync (dot_env_example fs) then (fs, 1)
      else (case copyFileSync fs of
              Inl e \<Rightarrow> (fs, 1)
            | Inr fs' \<Rightarrow> (fs', 1)))"

subsection \<open>JavaScript strings\<close>

text \<open>
  The regular-expression class \<^verbatim>\<open>\s\<close> and \<^verbatim>\<open>String.prototype.trim\<close> use the same set
  of characters, white space and line terminators: below 256 these are TAB, LF, VT, FF, CR,
  SPACE and NBSP. The dot of a regular expression and the anchors of the \<^verbatim>\<open>m\<close> flag stop
  at a line terminator: LF or CR.
\<close>

definition isLineTerminator :: "char \<Rightarrow> bool" where
  "isLineTerminator c = (c = CHR 0x0A \<or> c = CHR 0x0D)"

definition isSpace :: "char \<Rightarrow> bool" where
  "isSpace c =
     (c = CHR 0x09 \<or> c = CHR 0x0A \<or> c = CHR 0x0B \<or> c = CHR 0x0C \<or> c = CHR 0x0D
      \<or> c = CHR 0x20 \<or> c = CHR 0xA0)"

text \<open>\<^verbatim>\<open>s.trim()\<close>\<close>

definition trim :: "string \<Rightarrow> string" where
  "trim s = rev (dropWhile isSpace (rev (dropWhile isSpace s)))"

text \<open>
  \<^verbatim>\<open>s.toLowerCase()\<close>: below 256 the letters with a lower-case partner are A to Z and the
  Latin-1 capitals 0xC0 to 0xDE without the multiplication sign 0xD7; the partner is 32
  further on.
\<close>

definition toLowerCase_char :: "char \<Rightarrow> char" where
  "toLowerCase_char c =
     (let n = (of_char c :: nat)
      in if (65 \<le> n \<and> n \<le> 90) \<or> (192 \<le> n \<and> n \<le> 214) \<or> (216 \<le> n \<and> n \<le> 222)
         then char_of (n + 32) else c)"

definition toLowerCase :: "string \<Rightarrow> string" where
  "toLowerCase s = map toLowerCase_char s"

text \<open>
  \<^verbatim>\<open>s.replace(/\s+/g, '-')\<close>: scanning from the left, each match takes the longest run of
  white space at the position and is replaced by one hyphen.
\<close>

function replace_space_runs :: "string \<Rightarrow> string" where
  "replace_space_runs [] = []"
| "replace_space_runs (c # cs) =
     (if isSpace c then CHR ''-'' # replace_space_runs (dropWhile isSpace cs)
      else c # replace_space_runs cs)"
  by pat_completeness auto
termination
  by (relation "measure length") (auto simp: length_dropWhile_le less_Suc_eq_le)

text \<open>\<^verbatim>\<open>s.replace(/[^a-z0-9-]/g, '')\<close>\<close>

definition npm_char :: "char \<Rightarrow> bool" where
  "npm_char c =
     (let n = (of_char c :: nat)
      in (97 \<le> n \<and> n \<le> 122) \<or> (48 \<le> n \<and> n \<le> 57) \<or> c = CHR ''-'')"

definition strip_non_npm :: "string \<Rightarrow> string" where
  "strip_non_npm s = filter npm_char s"

text \<open>\<^verbatim>\<open>s.replace(/['"]/g, '')\<close>\<close>

definition strip_quotes :: "string \<Rightarrow> string" where
  "strip_quotes s = filter (\<lambda>c. c \<noteq> CHR 0x27 \<and> c \<noteq> CHR 0x22) s"

text \<open>\<^verbatim>\<open>s.replace(/'/g, "''")\<close>\<close>

fun replace_quotes :: "string \<Rightarrow> string" where
  "replace_quotes [] = []"
| "replace_quotes (c # cs) =
     (if c = CHR 0x27 then CHR 0x27 # CHR 0x27 # replace_quotes cs else c # replace_quotes cs)"

text \<open>\<^verbatim>\<open>s.startsWith(p)\<close>\<close>

definition startsWith :: "string \<Rightarrow> string \<Rightarrow> bool" where
  "startsWith s p = (take (length p) s = p)"

text \<open>
  \<^verbatim>\<open>content.match(/^KEY=(.*)$/m)\<close>: with the \<^verbatim>\<open>m\<close> flag the anchors match at the line
  terminators and the dot never crosses one, so the match is the first line that starts with
  \<^verbatim>\<open>KEY=\<close> and the group is the rest of that line. \<open>None\<close> is the \<^verbatim>\<open>null\<close> of no match.
  The key is passed with its equals sign.
\<close>

primrec lines_of :: "string \<Rightarrow> string list" where
  "lines_of [] = [[]]"
| "lines_of (c # cs) =
     (if isLineTerminator c then [] # lines_of cs
      else (case lines_of cs of [] \<Rightarrow> [[c]] | l # ls \<Rightarrow> (c # l) # ls))"

definition match_key_line :: "string \<Rightarrow> string \<Rightarrow> string option" where
  "match_key_line key content =
     map_option (drop (length key)) (find (\<lambda>l. startsWith l key) (lines_of content))"

text \<open>The truth value JavaScript gives a string: every string but the empty one.\<close>

definition truthy :: "string \<Rightarrow> bool" where
  "truthy s = (s \<noteq> [])"

text \<open>
  The npm name \<^verbatim>\<open>updatePackageInfo\<close> derives from the project name:
  \<^verbatim>\<open>projectName.toLowerCase().replace(/\s+/g, '-').replace(/[^a-z0-9-]/g, '')\<close>.
\<close>

definition npmName :: "string \<Rightarrow> string" where
  "npmName projectName = strip_non_npm (replace_space_runs (toLowerCase projectName))"

text \<open>
  The derivation in the words of the specification: lower-case the name, turn each run of
  white space into one hyphen (the character that opens a run becomes the hyphen, the
  characters that continue it disappear), and keep only lower-case letters, digits and
  hyphens.
\<close>

fun hyphenate :: "bool \<Rightarrow> string \<Rightarrow> string" where
  "hyphenate inRun [] = []"
| "hyphenate inRun (c # cs) =
     (if isSpace c then (if inRun then hyphenate True cs else CHR ''-'' # hyphenate True cs)
      else c # hyphenate False cs)"

definition name_chars :: "char set" where
  "name_chars = set ''abcdefghijklmnopqrstuvwxyz0123456789-''"

definition derived_name :: "string \<Rightarrow> string" where
  "derived_name projectName =
     filter (\<lambda>c. c \<in> name_chars) (hyphenate False (toLowerCase projectName))"

subsection \<open>The package manifest and the working tree\<close>

text \<open>
  The fields of \<^verbatim>\<open>package.json\<close> that the scripts read or write; \<open>None\<close> is an absent
  field. \<open>scripts\<close> keeps the order of the keys, as a JavaScript object does: a read is
  \<open>map_of\<close>, \<^verbatim>\<open>delete scripts[k]\<close> is \<open>AList.delete\<close>, and \<^verbatim>\<open>scripts[k] = v\<close> is
  \<open>AList.update\<close> (in place for a key that is there, at the end for a new one). The
  values are strings, as commands, names and versions are. All other fields of the
  document travel in \<open>other\<close>.
\<close>

record 'j manifest =
  name :: "string option"
  version :: "string option"
  description :: "string option"
  scripts :: "(string \<times> string) list option"
  other :: 'j

text \<open>
  What \<^verbatim>\<open>JSON.parse(await readFile(path))\<close> finds at a path: no file, a file that does not
  parse to a document, or a document. The document stands for the bytes of the file; a
  write that stores an equal document is still a write, and is recorded as such below.
\<close>

datatype 'a json_file = Missing | Unparsable | Parsed 'a

datatype path = PackageJson | ReadmeMd | LicenseFile | CleanupScript

text \<open>
  The modifications of the working tree, in the order in which they happen. A run that
  returns the tree it was given, trace included, has modified no file.
\<close>

datatype effect = WriteFile path | Unlink path | SetTimeout path

text \<open>
  The working tree of the cleanup scripts. \<open>git_status\<close> is the output of
  \<^verbatim>\<open>git status --porcelain package.json deployment/scripts/cleanup-template.ts\<close>, \<open>None\<close>
  when \<^verbatim>\<open>execSync\<close> throws (no git, or no repository). \<open>writable\<close> says whether a
  modification succeeds; when it is \<open>False\<close>, \<^verbatim>\<open>writeFile\<close> and \<^verbatim>\<open>unlink\<close> throw.
  \<open>timer_pending\<close> is the timer \<^verbatim>\<open>selfDelete\<close> sets.
\<close>

record 'j world =
  package_json :: "'j manifest json_file"
  env_file :: "string option"
  readme_md :: "string option"
  license_file :: bool
  cleanup_script :: bool
  git_status :: "string option"
  writable :: bool
  timer_pending :: bool
  trace :: "effect list"

text \<open>\<^verbatim>\<open>await readFile(envPath, 'utf-8')\<close> and \<^verbatim>\<open>await readFile(readmePath, 'utf-8')\<close>\<close>

definition readFile :: "string option \<Rightarrow> io_error + string" where
  "readFile f = (case f of None \<Rightarrow> Inl ENOENT | Some content \<Rightarrow> Inr content)"

text \<open>\<^verbatim>\<open>JSON.parse(await readFile(packageJsonPath, 'utf-8'))\<close>\<close>

definition read_package :: "'j world \<Rightarrow> io_error + 'j manifest" where
  "read_package w =
     (case package_json w of
        Missing \<Rightarrow> Inl ENOENT
      | Unparsable \<Rightarrow> Inl SyntaxError
      | Parsed packageJson \<Rightarrow> Inr packageJson)"

text \<open>\<^verbatim>\<open>await writeFile(packageJsonPath, JSON.stringify(packageJson, null, 2) + '\n')\<close>\<close>

definition write_package :: "'j manifest \<Rightarrow> 'j world \<Rightarrow> io_error + 'j world" where
  "write_package packageJson w =
     (if writable w
      then Inr (w\<lparr>package_json := Parsed packageJson, trace := trace w @ [WriteFile PackageJson]\<rparr>)
      else Inl EACCES)"

text \<open>\<^verbatim>\<open>await writeFile(readmePath, readme)\<close>\<close>

definition write_readme :: "string \<Rightarrow> 'j world \<Rightarrow> io_error + 'j world" where
  "write_readme readme w =
     (if writable w
      then Inr (w\<lparr>readme_md := Some readme, trace := trace w @ [WriteFile ReadmeMd]\<rparr>)
      else Inl EACCES)"

text \<open>
  A \<^verbatim>\<open>try { ... } catch (error) { console.error(...) }\<close> whose body has failed: every body
  below modifies the tree in its last statement only, so the tree at the \<^verbatim>\<open>catch\<close> is the
  tree at the \<^verbatim>\<open>try\<close>.
\<close>

definition catch_log :: "'j world \<Rightarrow> io_error + 'j world \<Rightarrow> 'j world" where
  "catch_log w r = (case r of Inl error \<Rightarrow> w | Inr w' \<Rightarrow> w')"

text \<open>\<^verbatim>\<open>packageJson.scripts || {}\<close>\<close>

definition scripts_or_empty :: "'j manifest \<Rightarrow> (string \<times> string) list" where
  "scripts_or_empty packageJson = (case scripts packageJson of None \<Rightarrow> [] | Some s \<Rightarrow> s)"

text \<open>The test \<^verbatim>\<open>if (scripts[cmd])\<close>: the key is there and its command is not empty.\<close>

definition has_command :: "(string \<times> string) list \<Rightarrow> string \<Rightarrow> bool" where
  "has_command s cmd = (case map_of s cmd of None \<Rightarrow> False | Some v \<Rightarrow> truthy v)"

text \<open>\<^verbatim>\<open>if (scripts[cmd]) { delete scripts[cmd]; removedCount++ }\<close>\<close>

definition remove_command :: "string \<Rightarrow> (string \<times> string) list \<Rightarrow> (string \<times> string) list" where
  "remove_command cmd s = (if has_command s cmd then AList.delete cmd s else s)"

text \<open>
  \<^verbatim>\<open>if (scripts[oldName]) { scripts[newName] = scripts[oldName]; delete scripts[oldName] }\<close>
\<close>

definition rename_command ::
  "string \<times> string \<Rightarrow> (string \<times> string) list \<Rightarrow> (string \<times> string) list" where
  "rename_command r s =
     (case r of (oldName, newName) \<Rightarrow>
        (case map_of s oldName of
           None \<Rightarrow> s
         | Some v \<Rightarrow>
             if truthy v then AList.delete oldName (AList.update newName v s) else s))"

text \<open>\<^verbatim>\<open>updatePackageInfo\<close>, the same text in every revision that has it.\<close>

definition updatePackageInfo_body :: "'j world \<Rightarrow> io_error + 'j world" where
  "updatePackageInfo_body w =
     (case readFile (env_file w) of
        Inl e \<Rightarrow> Inl e
      | Inr envContent \<Rightarrow>
          (case match_key_line ''PROJECT_NAME='' envContent of
             None \<Rightarrow> Inr w
           | Some group1 \<Rightarrow>
               (let projectName = trim group1 in
                case read_package w of
                  Inl e \<Rightarrow> Inl e
                | Inr packageJson \<Rightarrow>
                    write_package
                      (packageJson\<lparr>name := Some (npmName projectName),
                                   description := None,
                                   version := Some ''0.1.0''\<rparr>) w)))"

definition updatePackageInfo :: "'j world \<Rightarrow> 'j world" where
  "updatePackageInfo w = catch_log w (updatePackageInfo_body w)"

text \<open>
  A field of the manifest as it is on disk: \<open>None\<close> when there is no manifest to read.
\<close>

definition manifest_field :: "('j manifest \<Rightarrow> 'a) \<Rightarrow> 'j world \<Rightarrow> 'a option" where
  "manifest_field f w =
     (case package_json w of Parsed packageJson \<Rightarrow> Some (f packageJson) | _ \<Rightarrow> None)"

text \<open>The commands of the manifest on disk, and whether a key is among them.\<close>

definition scripts_on_disk :: "'j world \<Rightarrow> (string \<times> string) list" where
  "scripts_on_disk w =
     (case package_json w of Parsed packageJson \<Rightarrow> scripts_or_empty packageJson | _ \<Rightarrow> [])"

definition has_key :: "(string \<times> string) list \<Rightarrow> string \<Rightarrow> bool" where
  "has_key s k = (map_of s k \<noteq> None)"

subsection \<open>\<^verbatim>\<open>deployment/scripts/cleanup-template.ts\<close>\<close>

definition hasUncommittedChanges :: "'j world \<Rightarrow> bool" where
  "hasUncommittedChanges w =
     (case git_status w of
        None \<Rightarrow> False
      | Some result \<Rightarrow> truthy (trim result))"

definition commandsToRemove :: "string list" where
  "commandsToRemove =
     [''init'', ''setup:env'', ''setup:full'', ''setup:certs'', ''setup:init-steps'',
      ''setup:containers'', ''setup:database'', ''setup:auth'', ''setup:auth:provision'']"

definition renames :: "(string \<times> string) list" where
  "renames =
     [(''containers:start'', ''infra:start''),
      (''containers:stop'', ''infra:stop''),
      (''containers:restart'', ''infra:restart''),
      (''containers:logs'', ''infra:logs''),
      (''containers:status'', ''infra:status'')]"

definition cleanupTemplateCommands_body :: "'j world \<Rightarrow> io_error + 'j world" where
  "cleanupTemplateCommands_body w =
     (case read_package w of
        Inl e \<Rightarrow> Inl e
      | Inr packageJson \<Rightarrow>
          (let scripts0 = scripts_or_empty packageJson;
               scripts1 = fold remove_command commandsToRemove scripts0;
               scripts2 = fold rename_command renames scripts1
           in write_package (packageJson\<lparr>scripts := Some scripts2\<rparr>) w))"

definition cleanupTemplateCommands :: "'j world \<Rightarrow> 'j world" where
  "cleanupTemplateCommands w = catch_log w (cleanupTemplateCommands_body w)"

text \<open>
  \<^verbatim>\<open>main\<close>: the command cleanup runs when git reports nothing pending; the package
  information is updated in both cases.
\<close>

definition main_cleanup_template :: "'j world \<Rightarrow> 'j world" where
  "main_cleanup_template w =
     (let hasChanges = hasUncommittedChanges w;
          w1 = (if \<not> hasChanges then cleanupTemplateCommands w else w)
      in updatePackageInfo w1)"

subsection \<open>The revision with the template test first (\<^verbatim>\<open>cleanupTemplate\<close>, part 005)\<close>

definition commandsToRemove_part_005 :: "string list" where
  "commandsToRemove_part_005 =
     [''init'', ''setup:env'', ''setup:full'', ''setup:certs'', ''setup:init-steps'',
      ''setup:containers'', ''setup:database'', ''setup:auth'']"

definition cleanupTemplate_body :: "'j world \<Rightarrow> io_error + 'j world" where
  "cleanupTemplate_body w =
     (case read_package w of
        Inl e \<Rightarrow> Inl e
      | Inr packageJson \<Rightarrow>
          if name packageJson = Some ''nuxtship'' then Inr w
          else
            (let scripts0 = scripts_or_empty packageJson;
                 scripts1 = fold remove_command commandsToRemove_part_005 scripts0;
                 scripts2 = rename_command (''containers:start'', ''infra:start'') scripts1;
                 scripts3 = rename_command (''containers:stop'', ''infra:stop'') scripts2;
                 scripts4 = rename_command (''containers:restart'', ''infra:restart'') scripts3;
                 scripts5 = rename_command (''containers:logs'', ''infra:logs'') scripts4;
                 scripts6 = rename_command (''containers:status'', ''infra:status'') scripts5
             in write_package (packageJson\<lparr>scripts := Some scripts6\<rparr>) w))"

definition cleanupTemplate :: "'j world \<Rightarrow> 'j world" where
  "cleanupTemplate w = catch_log w (cleanupTemplate_body w)"

subsection \<open>The revision that rewrites the README and deletes itself (part 004)\<close>

definition isTemplateRepo :: "'j world \<Rightarrow> bool" where
  "isTemplateRepo w =
     (case read_package w of
        Inl e \<Rightarrow> False
      | Inr packageJson \<Rightarrow> name packageJson = Some ''nuxtship'')"

definition cleanupTemplateCommands_part_004_body :: "'j world \<Rightarrow> io_error + 'j world" where
  "cleanupTemplateCommands_part_004_body w =
     (case read_package w of
        Inl e \<Rightarrow> Inl e
      | Inr packageJson \<Rightarrow>
          (let scripts0 = scripts_or_empty packageJson;
               scripts1 = (if has_command scripts0 ''init''
                           then AList.update ''init''
                                  ''bun run setup:env && bun run setup:full'' scripts0
                           else scripts0)
           in write_package (packageJson\<lparr>scripts := Some scripts1\<rparr>) w))"

definition cleanupTemplateCommands_part_004 :: "'j world \<Rightarrow> 'j world" where
  "cleanupTemplateCommands_part_004 w = catch_log w (cleanupTemplateCommands_part_004_body w)"

text \<open>
  \<^verbatim>\<open>match?.[1]?.trim().replace(/['"]/g, '') || fallback\<close>, the way \<^verbatim>\<open>cleanupReadme\<close>
  reads a name from the environment file.
\<close>

definition env_name_or :: "string \<Rightarrow> string \<Rightarrow> string \<Rightarrow> string" where
  "env_name_or key envContent fallback =
     (case match_key_line key envContent of
        None \<Rightarrow> fallback
      | Some group1 \<Rightarrow>
          (let v = strip_quotes (trim group1) in if truthy v then v else fallback))"

text \<open>
  \<^verbatim>\<open>cleanupReadme\<close>. The chain of six \<^verbatim>\<open>readme.replace\<close> calls is a function of the
  application name, the project name and the text; it is the parameter \<open>substitute\<close>, and
  the text of the README is only ever handed to it.
\<close>

definition cleanupReadme_body ::
  "(string \<Rightarrow> string \<Rightarrow> string \<Rightarrow> string) \<Rightarrow> 'j world \<Rightarrow> io_error + 'j world" where
  "cleanupReadme_body substitute w =
     (case readFile (env_file w) of
        Inl e \<Rightarrow> Inl e
      | Inr envContent \<Rightarrow>
          (let projectName = env_name_or ''PROJECT_NAME='' envContent ''My App'';
               appName = env_name_or ''APPLICATION_NAME='' envContent projectName
           in case readFile (readme_md w) of
                Inl e \<Rightarrow> Inl e
              | Inr readme \<Rightarrow> write_readme (substitute appName projectName readme) w))"

definition cleanupReadme ::
  "(string \<Rightarrow> string \<Rightarrow> string \<Rightarrow> string) \<Rightarrow> 'j world \<Rightarrow> 'j world" where
  "cleanupReadme substitute w = catch_log w (cleanupReadme_body substitute w)"

text \<open>\<^verbatim>\<open>await unlink(path)\<close> of the license file and of the script itself.\<close>

definition unlink_license :: "'j world \<Rightarrow> io_error + 'j world" where
  "unlink_license w =
     (if \<not> license_file w then Inl ENOENT
      else if \<not> writable w then Inl EACCES
      else Inr (w\<lparr>license_file := False, trace := trace w @ [Unlink LicenseFile]\<rparr>))"

definition unlink_script :: "'j world \<Rightarrow> io_error + 'j world" where
  "unlink_script w =
     (if \<not> cleanup_script w then Inl ENOENT
      else if \<not> writable w then Inl EACCES
      else Inr (w\<lparr>cleanup_script := False, trace := trace w @ [Unlink CleanupScript]\<rparr>))"

definition cleanupLicense :: "'j world \<Rightarrow> 'j world" where
  "cleanupLicense w = catch_log w (unlink_license w)"

text \<open>
  \<^verbatim>\<open>selfDelete\<close> only sets a timer of 100 ms; the callback runs when the timer fires, after
  \<^verbatim>\<open>main\<close> has returned.
\<close>

definition selfDelete :: "'j world \<Rightarrow> 'j world" where
  "selfDelete w = w\<lparr>timer_pending := True, trace := trace w @ [SetTimeout CleanupScript]\<rparr>"

definition selfDelete_callback :: "'j world \<Rightarrow> 'j world" where
  "selfDelete_callback w =
     (if timer_pending w then catch_log (w\<lparr>timer_pending := False\<rparr>)
                                (unlink_script (w\<lparr>timer_pending := False\<rparr>))
      else w)"

definition main_part_004 ::
  "(string \<Rightarrow> string \<Rightarrow> string \<Rightarrow> string) \<Rightarrow> 'j world \<Rightarrow> 'j world" where
  "main_part_004 substitute w =
     (let w1 = updatePackageInfo w;
          isTemplate = isTemplateRepo w1
      in if \<not> isTemplate
         then (let w2 = cleanupTemplateCommands_part_004 w1;
                   w3 = cleanupReadme substitute w2;
                   w4 = cleanupLicense w3
               in selfDelete w4)
         else w1)"

text \<open>The whole process: \<^verbatim>\<open>main()\<close>, then the event loop runs the timer.\<close>

definition run_part_004 ::
  "(string \<Rightarrow> string \<Rightarrow> string \<Rightarrow> string) \<Rightarrow> 'j world \<Rightarrow> 'j world" where
  "run_part_004 substitute w = selfDelete_callback (main_part_004 substitute w)"

subsection \<open>Concrete working trees\<close>

text \<open>
  The trees at which the results below are evaluated. \<open>project_tree\<close> is a project made
  from the template: every command of the removal list and of the rename map is there, git
  reports nothing pending, and the environment file names the project.
\<close>

definition template_scripts :: "(string \<times> string) list" where
  "template_scripts =
     [(''dev'', ''nuxt dev''),
      (''build'', ''nuxt build''),
      (''init'', ''bun run setup:env && bun run setup:full && bun run deployment/scripts/cleanup-template.ts''),
      (''setup:env'', ''bun run deployment/scripts/setup-env.ts''),
      (''setup:full'', ''bun run setup:certs && bun run setup:containers''),
      (''setup:certs'', ''mkcert -install''),
      (''setup:init-steps'', ''bun run setup:database && bun run setup:auth''),
      (''setup:containers'', ''docker compose up -d''),
      (''setup:database'', ''drizzle-kit migrate''),
      (''setup:auth'', ''bun run setup:auth:provision''),
      (''setup:auth:provision'', ''bun run deployment/scripts/provision.ts''),
      (''containers:start'', ''docker compose up -d''),
      (''containers:stop'', ''docker compose stop''),
      (''containers:restart'', ''docker compose restart''),
      (''containers:logs'', ''docker compose logs -f''),
      (''containers:status'', ''docker compose ps'')]"

definition project_manifest :: "unit manifest" where
  "project_manifest =
     \<lparr>name = Some ''my-app'', version = Some ''1.4.0'',
      description = Some ''Starter template'', scripts = Some template_scripts, other = ()\<rparr>"

definition project_tree :: "unit world" where
  "project_tree =
     \<lparr>package_json = Parsed project_manifest,
      env_file = Some ''PROJECT_NAME=My Cool App!'',
      readme_md = Some ''# Notes'',
      license_file = True, cleanup_script = True,
      git_status = Some [], writable = True, timer_pending = False, trace = []\<rparr>"

text \<open>The same tree with the manifest still named \<^verbatim>\<open>nuxtship\<close>: a fresh clone.\<close>

definition template_manifest :: "unit manifest" where
  "template_manifest = project_manifest\<lparr>name := Some ''nuxtship''\<rparr>"

definition fresh_clone_tree :: "unit world" where
  "fresh_clone_tree = project_tree\<lparr>package_json := Parsed template_manifest\<rparr>"

text \<open>The template repository itself: its environment file names the project NuxtShip.\<close>

definition upstream_tree :: "unit world" where
  "upstream_tree = fresh_clone_tree\<lparr>env_file := Some ''PROJECT_NAME=NuxtShip''\<rparr>"

text \<open>A fresh clone whose environment file has no \<^verbatim>\<open>PROJECT_NAME\<close> line.\<close>

definition unnamed_tree :: "unit world" where
  "unnamed_tree = fresh_clone_tree\<lparr>env_file := Some ''APP_DOMAIN=app.localhost''\<rparr>"

text \<open>The project with an uncommitted change of the manifest.\<close>

definition dirty_tree :: "unit world" where
  "dirty_tree = project_tree\<lparr>git_status := Some '' M package.json\<newline>''\<rparr>"

text \<open>The project without a README, and the project whose \<^verbatim>\<open>init\<close> command is empty.\<close>

definition no_readme_tree :: "unit world" where
  "no_readme_tree = project_tree\<lparr>readme_md := None\<rparr>"

definition blank_init_tree :: "unit world" where
  "blank_init_tree =
     project_tree\<lparr>package_json :=
       Parsed (project_manifest\<lparr>scripts := Some (AList.update ''init'' [] template_scripts)\<rparr>)\<rparr>"

text \<open>
  The README of these trees contains none of the patterns of \<^verbatim>\<open>cleanupReadme\<close>, so each
  \<^verbatim>\<open>replace\<close> of the chain returns its text.
\<close>

definition substitute_nothing :: "string \<Rightarrow> string \<Rightarrow> string \<Rightarrow> string" where
  "substitute_nothing appName projectName readme = readme"

text \<open>
  The project whose environment file has a space after the project name:
  \<^verbatim>\<open>PROJECT_NAME=My App \<close>.
\<close>

definition padded_name_tree :: "unit world" where
  "padded_name_tree = project_tree\<lparr>env_file := Some ''PROJECT_NAME=My App ''\<rparr>"

subsection \<open>The auth-context bridge\<close>

text \<open>
  The claims of a session: the subject identifier is the only one the middleware reads.
\<close>

record user_info =
  sub :: "string option"
  claims :: "(string \<times> string) list"

record session =
  userInfo :: "user_info option"

text \<open>How an awaited call ends: it throws an error with a message, or it returns.\<close>

datatype 'a awaited = Rejected string | Resolved 'a

text \<open>
  \<^verbatim>\<open>getUserSession\<close> of \<^verbatim>\<open>server/utils/auth.ts\<close>: the session of the OIDC library, or
  \<^verbatim>\<open>null\<close> when the library throws.
\<close>

definition getUserSession :: "session option awaited \<Rightarrow> session option awaited" where
  "getUserSession getOidcUserSession =
     (case getOidcUserSession of
        Rejected error \<Rightarrow> Resolved None
      | Resolved session \<Rightarrow> Resolved session)"

text \<open>
  The statements \<^verbatim>\<open>db.execute\<close> receives: a tagged template, with its text chunks and its
  parameters kept apart, or raw text.
\<close>

datatype sql = Template "string list" "string list" | Raw string

text \<open>
  One request at the server: the path of the request, the identity on
  \<^verbatim>\<open>event.context\<close>, the statements executed on the database so far, whether the database
  accepts a statement, and the errors written to the console.
\<close>

record request =
  url :: "string option"
  context_userId :: "string option"
  context_user :: "user_info option"
  executed :: "sql list"
  db_up :: bool
  console_error :: "string list"

text \<open>\<^verbatim>\<open>await db.execute(statement)\<close>\<close>

definition db_execute :: "sql \<Rightarrow> request \<Rightarrow> string + request" where
  "db_execute statement rq =
     (if db_up rq then Inr (rq\<lparr>executed := executed rq @ [statement]\<rparr>)
      else Inl ''connection refused'')"

text \<open>\<^verbatim>\<open>event.node.req.url?.startsWith('/api/')\<close>\<close>

definition is_api_request :: "request \<Rightarrow> bool" where
  "is_api_request rq = (case url rq of None \<Rightarrow> False | Some u \<Rightarrow> startsWith u ''/api/'')"

text \<open>\<^verbatim>\<open>session?.userInfo?.sub\<close>\<close>

definition session_sub :: "session option \<Rightarrow> string option" where
  "session_sub s =
     (case s of
        None \<Rightarrow> None
      | Some session \<Rightarrow> (case userInfo session of None \<Rightarrow> None | Some u \<Rightarrow> sub u))"

text \<open>
  The handler of \<^verbatim>\<open>server/middleware/auth-context.ts\<close>. \<^verbatim>\<open>getAuthSession\<close> is not among
  the sources; the way its call ends is the first argument. The result is \<open>Inl\<close> if the
  handler throws, \<open>Inr\<close> with the state of the request if it returns.
\<close>

definition auth_context_try :: "session option awaited \<Rightarrow> request \<Rightarrow> string + request" where
  "auth_context_try getAuthSession rq =
     (case getAuthSession of
        Rejected error \<Rightarrow> Inl error
      | Resolved session \<Rightarrow>
          (case session_sub session of
             None \<Rightarrow> Inr rq
           | Some userId \<Rightarrow>
               if truthy userId
               then (case db_execute (Template [''SET LOCAL auth.user_id = '', ''''] [userId]) rq of
                       Inl error \<Rightarrow> Inl error
                     | Inr rq' \<Rightarrow>
                         Inr (rq'\<lparr>context_userId := Some userId,
                                  context_user := (case session of None \<Rightarrow> None
                                                   | Some s \<Rightarrow> userInfo s)\<rparr>))
               else Inr rq))"

definition auth_context :: "session option awaited \<Rightarrow> request \<Rightarrow> string + request" where
  "auth_context getAuthSession rq =
     (if \<not> is_api_request rq then Inr rq
      else (case auth_context_try getAuthSession rq of
              Inl error \<Rightarrow> Inr (rq\<lparr>console_error := console_error rq @ [error]\<rparr>)
            | Inr rq' \<Rightarrow> Inr rq'))"

text \<open>
  The Logto revision of the handler (part 006). The statement is raw text:
  \<^verbatim>\<open>`SET SESSION auth.user_id = '${userId.replace(/'/g, "''")}'`\<close>.
\<close>

definition set_session_statement :: "string \<Rightarrow> string" where
  "set_session_statement userId =
     ''SET SESSION auth.user_id = '' @ [CHR 0x27] @ replace_quotes userId @ [CHR 0x27]"

text \<open>
  The first argument is the way \<^verbatim>\<open>logtoEventHandler\<close> and \<^verbatim>\<open>getIdTokenClaims\<close> end:
  the claims, \<^verbatim>\<open>undefined\<close> without a Logto client, or an error.
\<close>

definition auth_context_logto_try :: "user_info option awaited \<Rightarrow> request \<Rightarrow> string + request" where
  "auth_context_logto_try getIdTokenClaims rq =
     (case getIdTokenClaims of
        Rejected error \<Rightarrow> Inl error
      | Resolved user \<Rightarrow>
          (case (case user of None \<Rightarrow> None | Some u \<Rightarrow> sub u) of
             None \<Rightarrow> Inr rq
           | Some userId \<Rightarrow>
               if truthy userId
               then (case db_execute (Raw (set_session_statement userId)) rq of
                       Inl error \<Rightarrow> Inl error
                     | Inr rq' \<Rightarrow>
                         Inr (rq'\<lparr>context_userId := Some userId, context_user := user\<rparr>))
               else Inr rq))"

definition auth_context_logto :: "user_info option awaited \<Rightarrow> request \<Rightarrow> string + request" where
  "auth_context_logto getIdTokenClaims rq =
     (if \<not> is_api_request rq then Inr rq
      else (case auth_context_logto_try getIdTokenClaims rq of
              Inl error \<Rightarrow>
                if error \<noteq> ''Not authenticated.''
                then Inr (rq\<lparr>console_error := console_error rq @ [error]\<rparr>)
                else Inr rq
            | Inr rq' \<Rightarrow> Inr rq'))"

text \<open>
  How a SQL scanner reads a string constant in the standard syntax: it opens with a quote,
  two quotes in a row stand for one quote of the value, and a single quote closes it. The
  result is the value and the text after the constant; \<open>None\<close> if the text does not start
  with a constant or the constant is not closed.
\<close>

fun sql_constant_body :: "string \<Rightarrow> (string \<times> string) option" where
  "sql_constant_body [] = None"
| "sql_constant_body (c # cs) =
     (if c \<noteq> CHR 0x27
      then map_option (\<lambda>(v, rest). (c # v, rest)) (sql_constant_body cs)
      else (case cs of
              [] \<Rightarrow> Some ([], [])
            | d # ds \<Rightarrow>
                if d = CHR 0x27
                then map_option (\<lambda>(v, rest). (CHR 0x27 # v, rest)) (sql_constant_body ds)
                else Some ([], cs)))"

definition sql_string_constant :: "string \<Rightarrow> (string \<times> string) option" where
  "sql_string_constant s =
     (case s of [] \<Rightarrow> None | c # cs \<Rightarrow> if c = CHR 0x27 then sql_constant_body cs else None)"

text \<open>The claim's wording of the body of the constant: each quote replaced by two.\<close>

definition doubled_quotes :: "string \<Rightarrow> string" where
  "doubled_quotes s = concat (map (\<lambda>c. if c = CHR 0x27 then [CHR 0x27, CHR 0x27] else [c]) s)"

text \<open>
  A concrete request under \<^verbatim>\<open>/api/\<close> with nothing on its context and a database that
  accepts statements, and the claims of a user whose subject identifier is \<^verbatim>\<open>o'brien\<close>.
\<close>

definition api_request :: request where
  "api_request =
     \<lparr>url = Some ''/api/items'', context_userId = None, context_user = None,
      executed = [], db_up = True, console_error = []\<rparr>"

definition quoted_user :: user_info where
  "quoted_user = \<lparr>sub = Some (''o'' @ [CHR 0x27] @ ''brien''), claims = []\<rparr>"

subsection \<open>Results for the name derivation\<close>

lemma hyphenate_in_run: "hyphenate True cs = hyphenate False (dropWhile isSpace cs)"
  by (induction cs) auto

lemma replace_space_runs_hyphenate: "replace_space_runs s = hyphenate False s"
  by (induction s rule: replace_space_runs.induct) (simp_all add: hyphenate_in_run)

lemma of_char_range_cases:
  assumes "a \<le> (of_char c :: nat)" "of_char c \<le> (b :: nat)"
  shows "c \<in> char_of ` {a..b}"
proof -
  have "c = char_of (of_char c :: nat)" by simp
  moreover have "(of_char c :: nat) \<in> {a..b}" using assms by simp
  ultimately show ?thesis by (metis imageI)
qed

lemma lower_digits_enum:
  "char_of ` {97..122::nat} = set ''abcdefghijklmnopqrstuvwxyz''"
  "char_of ` {48..57::nat} = set ''0123456789''"
  by code_simp+

lemma npm_char_name_chars: "npm_char c = (c \<in> name_chars)"
proof
  assume "npm_char c"
  then consider "97 \<le> (of_char c :: nat) \<and> (of_char c :: nat) \<le> 122"
    | "48 \<le> (of_char c :: nat) \<and> (of_char c :: nat) \<le> 57" | "c = CHR ''-''"
    by (auto simp: npm_char_def Let_def)
  then show "c \<in> name_chars"
  proof cases
    case 1
    then have "c \<in> char_of ` {97..122::nat}" by (simp add: of_char_range_cases)
    then show ?thesis unfolding lower_digits_enum name_chars_def by auto
  next
    case 2
    then have "c \<in> char_of ` {48..57::nat}" by (simp add: of_char_range_cases)
    then show ?thesis unfolding lower_digits_enum name_chars_def by auto
  next
    case 3
    then show ?thesis by (simp add: name_chars_def)
  qed
next
  assume "c \<in> name_chars"
  then show "npm_char c"
    by (auto simp: name_chars_def npm_char_def)
qed

lemma npmName_chars: "set (npmName projectName) \<subseteq> name_chars"
  by (auto simp: npmName_def strip_non_npm_def npm_char_name_chars)

lemma npmName_example: "npmName ''My Cool App!'' = ''my-cool-app''"
  by (simp add: npmName_def strip_non_npm_def toLowerCase_def toLowerCase_char_def
        npm_char_def isSpace_def char_of_eq_iff)

lemma match_project_name_example:
  "match_key_line ''PROJECT_NAME='' ''DOMAIN=x\<newline>PROJECT_NAME=My Cool App!\<newline>'' = Some ''My Cool App!''"
  by (simp add: match_key_line_def startsWith_def isLineTerminator_def)

lemma npmName_derived_name: "npmName projectName = derived_name projectName"
  by (simp add: npmName_def strip_non_npm_def derived_name_def
        replace_space_runs_hyphenate npm_char_name_chars cong: filter_cong)

lemma updatePackageInfo_written:
  assumes "env_file w = Some envContent"
    and "match_key_line ''PROJECT_NAME='' envContent = Some group1"
    and "package_json w = Parsed packageJson" and "writable w"
  shows "updatePackageInfo w
         = w\<lparr>package_json := Parsed (packageJson\<lparr>name := Some (npmName (trim group1)),
                                               description := None,
                                               version := Some ''0.1.0''\<rparr>),
              trace := trace w @ [WriteFile PackageJson]\<rparr>"
  using assms
  by (simp add: updatePackageInfo_def updatePackageInfo_body_def catch_log_def readFile_def
        read_package_def write_package_def)

lemma trim_example: "trim ''My Cool App!'' = ''My Cool App!''"
  by (simp add: trim_def isSpace_def)

lemma project_tree_env:
  "env_file project_tree = Some ''PROJECT_NAME=My Cool App!''"
  "match_key_line ''PROJECT_NAME='' ''PROJECT_NAME=My Cool App!'' = Some ''My Cool App!''"
  "package_json project_tree = Parsed project_manifest"
  "writable project_tree"
  by code_simp+

text \<open>
  C5 (as the code has it). When \<^verbatim>\<open>updatePackageInfo\<close> finds a \<^verbatim>\<open>PROJECT_NAME\<close> line
  in the environment file and reads and writes the manifest, the name it stores is derived
  from the rest of that line by trimming the white space at both ends first, and then
  lower-casing, turning each run of white space into one hyphen and removing every
  character that is not a lower-case letter, a digit or a hyphen; description is dropped
  and version reset. The line \<^verbatim>\<open>PROJECT_NAME=My Cool App!\<close> gives the name
  \<^verbatim>\<open>my-cool-app\<close>.
\<close>

theorem C5_name_derivation:
  assumes "env_file w = Some envContent"
    and "match_key_line ''PROJECT_NAME='' envContent = Some group1"
    and "package_json w = Parsed packageJson" and "writable w"
  shows "package_json (updatePackageInfo w)
           = Parsed (packageJson\<lparr>name := Some (derived_name (trim group1)),
                                  description := None, version := Some ''0.1.0''\<rparr>)
         \<and> manifest_field name (updatePackageInfo w) = Some (Some (derived_name (trim group1)))
         \<and> (group1 = ''My Cool App!'' \<longrightarrow>
               manifest_field name (updatePackageInfo w) = Some (Some ''my-cool-app''))"
proof -
  have written: "package_json (updatePackageInfo w)
           = Parsed (packageJson\<lparr>name := Some (derived_name (trim group1)),
                                  description := None, version := Some ''0.1.0''\<rparr>)"
    by (simp add: updatePackageInfo_written [OF assms] npmName_derived_name)
  then have field: "manifest_field name (updatePackageInfo w)
                      = Some (Some (derived_name (trim group1)))"
    by (simp add: manifest_field_def)
  have "derived_name (trim ''My Cool App!'') = ''my-cool-app''"
    using npmName_example by (simp add: trim_example npmName_derived_name)
  with written field show ?thesis by simp
qed

theorem C5_name_derivation_witness:
  "env_file project_tree = Some ''PROJECT_NAME=My Cool App!''
   \<and> match_key_line ''PROJECT_NAME='' ''PROJECT_NAME=My Cool App!'' = Some ''My Cool App!''
   \<and> package_json project_tree = Parsed project_manifest
   \<and> writable project_tree
   \<and> manifest_field name (updatePackageInfo project_tree) = Some (Some ''my-cool-app'')"
proof -
  note inst = C5_name_derivation [OF project_tree_env]
  have "manifest_field name (updatePackageInfo project_tree) = Some (Some ''my-cool-app'')"
    using inst [THEN conjunct2, THEN conjunct2] by simp
  with project_tree_env show ?thesis by (simp only: simp_thms)
qed

text \<open>
  The claim as stated, at \<open>padded_name_tree\<close>: the string read from the environment file is
  \<^verbatim>\<open>My App\<close> followed by a space. The three steps of the claim give \<^verbatim>\<open>my-app-\<close>; the
  code trims the string first and stores \<^verbatim>\<open>my-app\<close>.
\<close>

theorem C5_name_derivation_counterexample:
  "env_file padded_name_tree = Some ''PROJECT_NAME=My App ''
   \<and> match_key_line ''PROJECT_NAME='' ''PROJECT_NAME=My App '' = Some ''My App ''
   \<and> derived_name ''My App '' = ''my-app-''
   \<and> manifest_field name (updatePackageInfo padded_name_tree) = Some (Some ''my-app'')"
  by code_simp


subsection \<open>Results for the environment initializer\<close>

lemma main_setup_env_existing:
  "dot_env fs = Some bytes \<Longrightarrow> main_setup_env fs = (fs, 0)"
  by (simp add: main_setup_env_def existsSync_def)

lemma main_setup_env_keeps_existing:
  "dot_env fs = Some bytes \<Longrightarrow> dot_env (fst (main_setup_env fs)) = Some bytes"
  by (simp add: main_setup_env_existing)

lemma main_setup_env_idem:
  "fst (main_setup_env (fst (main_setup_env fs))) = fst (main_setup_env fs)"
  by (auto simp: main_setup_env_def existsSync_def copyFileSync_def
           split: option.splits sum.splits if_splits)

text \<open>
  C7. When the environment file already exists, the initializer returns at once with
  status 0 and leaves the file system as it found it; and whatever the first run did, a
  second run leaves the environment file of the first run in place: it is a no-op on the
  file system.
\<close>

theorem C7_existing_env_untouched:
  "(dot_env fs = Some bytes \<longrightarrow> main_setup_env fs = (fs, 0))
   \<and> (dot_env (fst (main_setup_env fs)) = Some bytes \<longrightarrow>
        main_setup_env (fst (main_setup_env fs)) = (fst (main_setup_env fs), 0))"
  by (simp add: main_setup_env_existing)

theorem C7_existing_env_untouched_witness:
  "dot_env \<lparr>dot_env = Some ''A=1'', dot_env_example = Some ''A='', fs_writable = True\<rparr>
     = Some ''A=1''
   \<and> main_setup_env \<lparr>dot_env = Some ''A=1'', dot_env_example = Some ''A='', fs_writable = True\<rparr>
     = (\<lparr>dot_env = Some ''A=1'', dot_env_example = Some ''A='', fs_writable = True\<rparr>, 0)
   \<and> dot_env (fst (main_setup_env
         \<lparr>dot_env = None, dot_env_example = Some ''A='', fs_writable = True\<rparr>)) = Some ''A=''
   \<and> main_setup_env (fst (main_setup_env
         \<lparr>dot_env = None, dot_env_example = Some ''A='', fs_writable = True\<rparr>))
     = (\<lparr>dot_env = Some ''A='', dot_env_example = Some ''A='', fs_writable = True\<rparr>, 0)"
  using C7_existing_env_untouched
          [of "\<lparr>dot_env = Some ''A=1'', dot_env_example = Some ''A='', fs_writable = True\<rparr>"
              "''A=1''"]
        C7_existing_env_untouched
          [of "\<lparr>dot_env = None, dot_env_example = Some ''A='', fs_writable = True\<rparr>" "''A=''"]
  by (simp add: main_setup_env_def existsSync_def copyFileSync_def)

text \<open>
  C8 (as the code has it). The exit status is 0 exactly when the environment file already
  existed. Otherwise it is 1, in three cases: the template file is missing (nothing is
  created), the copy fails (nothing is created), or the environment file has just been
  created as a copy of the template.
\<close>

theorem C8_exit_status:
  "(snd (main_setup_env fs) = 0 \<longleftrightarrow> dot_env fs \<noteq> None)
   \<and> (dot_env fs = None \<longrightarrow>
        snd (main_setup_env fs) = 1
        \<and> ((dot_env_example fs = None \<and> fst (main_setup_env fs) = fs)
           \<or> (dot_env_example fs \<noteq> None \<and> \<not> fs_writable fs \<and> fst (main_setup_env fs) = fs)
           \<or> (dot_env_example fs \<noteq> None \<and> fs_writable fs
               \<and> fst (main_setup_env fs) = fs\<lparr>dot_env := dot_env_example fs\<rparr>)))"
  by (auto simp: main_setup_env_def existsSync_def copyFileSync_def split: option.splits)

theorem C8_exit_status_witness:
  "dot_env \<lparr>dot_env = None, dot_env_example = Some ''A='', fs_writable = True\<rparr> = None
   \<and> main_setup_env \<lparr>dot_env = None, dot_env_example = Some ''A='', fs_writable = True\<rparr>
       = (\<lparr>dot_env = Some ''A='', dot_env_example = Some ''A='', fs_writable = True\<rparr>, 1)
   \<and> main_setup_env \<lparr>dot_env = None, dot_env_example = None, fs_writable = True\<rparr>
       = (\<lparr>dot_env = None, dot_env_example = None, fs_writable = True\<rparr>, 1)"
  using C8_exit_status [of "\<lparr>dot_env = None, dot_env_example = Some ''A='', fs_writable = True\<rparr>"]
        C8_exit_status [of "\<lparr>dot_env = None, dot_env_example = None, fs_writable = True\<rparr>"]
  by (simp add: main_setup_env_def existsSync_def copyFileSync_def)

text \<open>
  The third case at a concrete input: the template is there, the directory cannot be
  written, \<^verbatim>\<open>copyFileSync\<close> throws and the \<^verbatim>\<open>catch\<close> exits with status 1. The
  status is not 0 although no environment file was created and no template is missing.
\<close>

theorem C8_copy_failure_counterexample:
  "snd (main_setup_env \<lparr>dot_env = None, dot_env_example = Some ''A='', fs_writable = False\<rparr>) = 1
   \<and> dot_env (fst (main_setup_env
         \<lparr>dot_env = None, dot_env_example = Some ''A='', fs_writable = False\<rparr>)) = None
   \<and> dot_env_example \<lparr>dot_env = None, dot_env_example = Some ''A='', fs_writable = False\<rparr>
       = Some ''A=''"
  by (simp add: main_setup_env_def existsSync_def copyFileSync_def)

subsection \<open>Results for the auth-context bridge\<close>

lemma replace_quotes_doubled: "replace_quotes s = doubled_quotes s"
  by (induction s) (simp_all add: doubled_quotes_def)

lemma sql_constant_body_replace_quotes:
  "sql_constant_body (replace_quotes s @ [CHR 0x27]) = Some (s, [])"
  by (induction s) simp_all

lemma sql_constant_body_replace_quotes_rest:
  assumes "rest = [] \<or> hd rest \<noteq> CHR 0x27"
  shows "sql_constant_body (replace_quotes s @ CHR 0x27 # rest) = Some (s, rest)"
  using assms by (induction s) (auto split: list.splits)

lemma auth_context_logto_statement:
  assumes "is_api_request rq" and "sub u = Some userId" and "truthy userId" and "db_up rq"
  shows "auth_context_logto (Resolved (Some u)) rq
         = Inr (rq\<lparr>executed := executed rq @ [Raw (set_session_statement userId)],
                  context_userId := Some userId, context_user := Some u\<rparr>)"
  using assms by (simp add: auth_context_logto_def auth_context_logto_try_def db_execute_def)

lemma api_request_facts:
  "is_api_request api_request"
  "sub quoted_user = Some (''o'' @ [CHR 0x27] @ ''brien'')"
  "truthy (''o'' @ [CHR 0x27] @ ''brien'')"
  "db_up api_request"
  by code_simp+

text \<open>
  C10. For a request under \<^verbatim>\<open>/api/\<close> whose claims carry a subject identifier that is not
  empty, with the database accepting the statement, the handler of the Logto revision
  passes to \<^verbatim>\<open>db.execute\<close> exactly one statement: the raw text
  \<^verbatim>\<open>SET SESSION auth.user_id = \<close> followed by a string constant whose body is the
  identifier with each quote doubled. A scanner of SQL string constants in the standard
  syntax reads that constant to its last character and its value is the identifier itself,
  so no quote of the identifier closes the constant.
\<close>

theorem C10_set_session_quoting:
  assumes "is_api_request rq" and "sub u = Some userId" and "truthy userId" and "db_up rq"
  shows "auth_context_logto (Resolved (Some u)) rq
           = Inr (rq\<lparr>executed := executed rq
                       @ [Raw (''SET SESSION auth.user_id = ''
                               @ CHR 0x27 # doubled_quotes userId @ [CHR 0x27])],
                    context_userId := Some userId, context_user := Some u\<rparr>)
         \<and> set_session_statement userId
             = ''SET SESSION auth.user_id = '' @ CHR 0x27 # doubled_quotes userId @ [CHR 0x27]
         \<and> sql_string_constant (CHR 0x27 # doubled_quotes userId @ [CHR 0x27])
             = Some (userId, [])"
proof -
  have stmt: "set_session_statement userId
          = ''SET SESSION auth.user_id = '' @ CHR 0x27 # doubled_quotes userId @ [CHR 0x27]"
    by (simp add: set_session_statement_def replace_quotes_doubled)
  have "sql_constant_body (doubled_quotes userId @ [CHR 0x27]) = Some (userId, [])"
    using sql_constant_body_replace_quotes [of userId] by (simp add: replace_quotes_doubled)
  then have reads: "sql_string_constant (CHR 0x27 # doubled_quotes userId @ [CHR 0x27])
               = Some (userId, [])"
    by (simp add: sql_string_constant_def)
  have "auth_context_logto (Resolved (Some u)) rq
           = Inr (rq\<lparr>executed := executed rq @ [Raw (set_session_statement userId)],
                    context_userId := Some userId, context_user := Some u\<rparr>)"
    using assms by (rule auth_context_logto_statement)
  then show ?thesis
    using stmt reads by simp
qed

theorem C10_set_session_quoting_witness:
  "is_api_request api_request
   \<and> sub quoted_user = Some (''o'' @ [CHR 0x27] @ ''brien'')
   \<and> truthy (''o'' @ [CHR 0x27] @ ''brien'')
   \<and> db_up api_request
   \<and> auth_context_logto (Resolved (Some quoted_user)) api_request
       = Inr (api_request\<lparr>executed :=
                [Raw (''SET SESSION auth.user_id = ''
                      @ [CHR 0x27] @ ''o'' @ [CHR 0x27, CHR 0x27] @ ''brien'' @ [CHR 0x27])],
                context_userId := Some (''o'' @ [CHR 0x27] @ ''brien''),
                context_user := Some quoted_user\<rparr>)
   \<and> sql_string_constant ([CHR 0x27] @ ''o'' @ [CHR 0x27, CHR 0x27] @ ''brien'' @ [CHR 0x27])
       = Some (''o'' @ [CHR 0x27] @ ''brien'', [])"
proof -
  note inst = C10_set_session_quoting [OF api_request_facts]
  have ex: "executed api_request = []" by (simp add: api_request_def)
  have a: "auth_context_logto (Resolved (Some quoted_user)) api_request
       = Inr (api_request\<lparr>executed :=
                [Raw (''SET SESSION auth.user_id = ''
                      @ [CHR 0x27] @ ''o'' @ [CHR 0x27, CHR 0x27] @ ''brien'' @ [CHR 0x27])],
                context_userId := Some (''o'' @ [CHR 0x27] @ ''brien''),
                context_user := Some quoted_user\<rparr>)"
    using inst [THEN conjunct1] by (simp add: doubled_quotes_def ex)
  have b: "sql_string_constant ([CHR 0x27] @ ''o'' @ [CHR 0x27, CHR 0x27] @ ''brien'' @ [CHR 0x27])
       = Some (''o'' @ [CHR 0x27] @ ''brien'', [])"
    using inst [THEN conjunct2, THEN conjunct2] by (simp add: doubled_quotes_def)
  from api_request_facts a b show ?thesis by (simp only: simp_thms)
qed

lemma auth_context_no_subject:
  assumes "is_api_request rq" and "session_sub s = None"
  shows "auth_context (Resolved s) rq = Inr rq"
  using assms by (simp add: auth_context_def auth_context_try_def)

lemma auth_context_rejected:
  assumes "is_api_request rq"
  shows "auth_context (Rejected error) rq
         = Inr (rq\<lparr>console_error := console_error rq @ [error]\<rparr>)"
  using assms by (simp add: auth_context_def auth_context_try_def)

lemma auth_context_other_path: "\<not> is_api_request rq \<Longrightarrow> auth_context s rq = Inr rq"
  by (simp add: auth_context_def)

lemma auth_context_returns: "\<exists>rq'. auth_context s rq = Inr rq'"
  by (auto simp: auth_context_def split: sum.splits)

lemma auth_context_authenticated:
  assumes "is_api_request rq" and "userInfo s = Some u" and "sub u = Some userId"
    and "truthy userId" and "db_up rq"
  shows "auth_context (Resolved (Some s)) rq
         = Inr (rq\<lparr>executed := executed rq @ [Template [''SET LOCAL auth.user_id = '', ''''] [userId]],
                  context_userId := Some userId, context_user := Some u\<rparr>)"
  using assms
  by (simp add: auth_context_def auth_context_try_def session_sub_def db_execute_def)

text \<open>
  C9. A request under \<^verbatim>\<open>/api/\<close> without a valid session (the session call throws, it
  returns \<^verbatim>\<open>null\<close>, or it is \<^verbatim>\<open>getUserSession\<close> over a library call that throws): the
  handler returns, the identity on the context is what it was, and no statement is executed
  on the database.
\<close>

theorem C9_unauthenticated_request:
  assumes "is_api_request rq"
    and "getAuthSession = Rejected error \<or> getAuthSession = Resolved None
         \<or> getAuthSession = getUserSession (Rejected error)"
  shows "\<exists>rq'. auth_context getAuthSession rq = Inr rq'
           \<and> context_userId rq' = context_userId rq
           \<and> context_user rq' = context_user rq
           \<and> executed rq' = executed rq"
proof -
  have none: "session_sub None = None" by (simp add: session_sub_def)
  from assms(2) consider "getAuthSession = Rejected error" | "getAuthSession = Resolved None"
    by (auto simp: getUserSession_def)
  then show ?thesis
  proof cases
    case 1
    then show ?thesis using assms(1) by (simp add: auth_context_rejected)
  next
    case 2
    then show ?thesis using assms(1) none by (simp add: auth_context_no_subject)
  qed
qed

theorem C9_unauthenticated_request_witness:
  "is_api_request \<lparr>url = Some ''/api/items'', context_userId = None, context_user = None,
                    executed = [], db_up = True, console_error = []\<rparr>
   \<and> (\<exists>rq'. auth_context (Rejected ''Unauthorized'')
               \<lparr>url = Some ''/api/items'', context_userId = None, context_user = None,
                executed = [], db_up = True, console_error = []\<rparr> = Inr rq'
            \<and> context_userId rq' = None \<and> context_user rq' = None \<and> executed rq' = [])"
proof -
  have api: "is_api_request \<lparr>url = Some ''/api/items'', context_userId = None,
               context_user = None, executed = [], db_up = True, console_error = []\<rparr>"
    by (simp add: is_api_request_def startsWith_def)
  show ?thesis
    using api C9_unauthenticated_request [OF api, of "Rejected ''Unauthorized''" "''Unauthorized''"]
    by simp
qed


subsection \<open>Results for the template cleanup\<close>

lemma has_command_remove:
  "has_command (remove_command c s) k = (k \<noteq> c \<and> has_command s k)"
  by (auto simp: remove_command_def has_command_def AList.delete_conv' split: option.splits)

lemma map_of_remove_command:
  "map_of (remove_command c s) k = (if k = c \<and> has_command s c then None else map_of s k)"
  by (simp add: remove_command_def AList.delete_conv')

lemma map_of_fold_remove:
  "map_of (fold remove_command cmds s) k
     = (if k \<in> set cmds \<and> has_command s k then None else map_of s k)"
proof (induction cmds arbitrary: s)
  case Nil
  then show ?case by simp
next
  case (Cons c cmds)
  show ?case
    by (auto simp: Cons.IH has_command_remove map_of_remove_command)
qed

lemma map_of_rename_command:
  "map_of (rename_command (old, new) s) k
     = (if has_command s old
        then (if k = old then None else if k = new then map_of s old else map_of s k)
        else map_of s k)"
  by (auto simp: rename_command_def has_command_def AList.delete_conv' AList.update_conv'
           split: option.splits)

lemma map_of_fold_rename_other:
  "k \<notin> fst ` set rs \<Longrightarrow> k \<notin> snd ` set rs \<Longrightarrow> map_of (fold rename_command rs s) k = map_of s k"
proof (induction rs arbitrary: s)
  case Nil
  then show ?case by simp
next
  case (Cons r rs)
  obtain old new where r: "r = (old, new)" by (cases r)
  from Cons.prems have "k \<noteq> old" "k \<noteq> new" "k \<notin> fst ` set rs" "k \<notin> snd ` set rs"
    by (auto simp: r)
  then show ?case
    by (simp add: Cons.IH r map_of_rename_command)
qed

lemma map_of_fold_rename:
  assumes "distinct (map fst rs)" and "distinct (map snd rs)"
    and "fst ` set rs \<inter> snd ` set rs = {}"
    and "(old, new) \<in> set rs" and "map_of s old = Some v" and "truthy v"
  shows "map_of (fold rename_command rs s) old = None
         \<and> map_of (fold rename_command rs s) new = Some v"
  using assms
proof (induction rs arbitrary: s)
  case Nil
  then show ?case by simp
next
  case (Cons r rs)
  obtain old' new' where r: "r = (old', new')" by (cases r)
  have hc: "has_command s old"
    using Cons.prems(5,6) by (simp add: has_command_def)
  show ?case
  proof (cases "(old, new) = (old', new')")
    case True
    then have eq: "old' = old" "new' = new" by simp_all
    have "old \<notin> fst ` set rs" "new \<notin> snd ` set rs"
      using Cons.prems(1,2) by (auto simp: r eq)
    moreover have "old \<notin> snd ` set rs" "new \<notin> fst ` set rs"
      using Cons.prems(3) by (auto simp: r eq)
    moreover have "old \<noteq> new"
      using Cons.prems(3) by (auto simp: r eq)
    ultimately show ?thesis
      using hc Cons.prems(5)
      by (simp add: r eq map_of_fold_rename_other map_of_rename_command)
  next
    case False
    then have mem: "(old, new) \<in> set rs" using Cons.prems(4) by (auto simp: r)
    then have "old \<in> fst ` set rs" "new \<in> snd ` set rs" by force+
    then have "old \<noteq> old'" "old \<noteq> new'"
      using Cons.prems(1,3) by (auto simp: r)
    then have keep: "map_of (rename_command (old', new') s) old = Some v"
      using Cons.prems(5) by (simp add: map_of_rename_command)
    have "distinct (map fst rs)" "distinct (map snd rs)" "fst ` set rs \<inter> snd ` set rs = {}"
      using Cons.prems(1,2,3) by (auto simp: r)
    from Cons.IH [OF this mem keep Cons.prems(6)] show ?thesis
      by (simp add: r)
  qed
qed

lemma renames_wf:
  "distinct (map fst renames)" "distinct (map snd renames)"
  "fst ` set renames \<inter> snd ` set renames = {}"
  by (simp_all add: renames_def)

lemma renames_apart:
  "set commandsToRemove \<inter> (fst ` set renames \<union> snd ` set renames) = {}"
  by (simp add: renames_def commandsToRemove_def)

lemma cleanupTemplateCommands_written:
  assumes "package_json w = Parsed packageJson" and "writable w"
  shows "cleanupTemplateCommands w
         = w\<lparr>package_json := Parsed (packageJson\<lparr>scripts :=
                 Some (fold rename_command renames
                        (fold remove_command commandsToRemove (scripts_or_empty packageJson)))\<rparr>),
               trace := trace w @ [WriteFile PackageJson]\<rparr>"
  using assms
  by (simp add: cleanupTemplateCommands_def cleanupTemplateCommands_body_def catch_log_def
        read_package_def write_package_def)

lemma cleanupTemplate_written:
  assumes "package_json w = Parsed packageJson" and "writable w"
    and "name packageJson \<noteq> Some ''nuxtship''"
  shows "cleanupTemplate w
         = w\<lparr>package_json := Parsed (packageJson\<lparr>scripts :=
                 Some (fold rename_command renames
                        (fold remove_command commandsToRemove_part_005
                           (scripts_or_empty packageJson)))\<rparr>),
               trace := trace w @ [WriteFile PackageJson]\<rparr>"
  using assms
  by (simp add: cleanupTemplate_def cleanupTemplate_body_def catch_log_def
        read_package_def write_package_def renames_def)

lemma removed_then_renamed:
  assumes "set cmds \<inter> (fst ` set renames \<union> snd ` set renames) = {}"
  shows "\<forall>cmd\<in>set cmds. has_command s cmd \<longrightarrow>
           map_of (fold rename_command renames (fold remove_command cmds s)) cmd = None"
    and "\<forall>(old, new)\<in>set renames. has_command s old \<longrightarrow>
           map_of (fold rename_command renames (fold remove_command cmds s)) old = None
           \<and> map_of (fold rename_command renames (fold remove_command cmds s)) new = map_of s old"
proof -
  show "\<forall>cmd\<in>set cmds. has_command s cmd \<longrightarrow>
           map_of (fold rename_command renames (fold remove_command cmds s)) cmd = None"
  proof (intro ballI impI)
    fix cmd assume c: "cmd \<in> set cmds" and h: "has_command s cmd"
    from c assms have "cmd \<notin> fst ` set renames" "cmd \<notin> snd ` set renames" by auto
    then show "map_of (fold rename_command renames (fold remove_command cmds s)) cmd = None"
      using c h by (simp add: map_of_fold_rename_other map_of_fold_remove)
  qed
  show "\<forall>(old, new)\<in>set renames. has_command s old \<longrightarrow>
           map_of (fold rename_command renames (fold remove_command cmds s)) old = None
           \<and> map_of (fold rename_command renames (fold remove_command cmds s)) new = map_of s old"
  proof (intro ballI, clarify)
    fix old new assume m: "(old, new) \<in> set renames" and h: "has_command s old"
    from h obtain v where v: "map_of s old = Some v" "truthy v"
      by (auto simp: has_command_def split: option.splits)
    from m have "old \<in> fst ` set renames" by force
    with assms have "old \<notin> set cmds" by auto
    then have "map_of (fold remove_command cmds s) old = Some v"
      using v by (simp add: map_of_fold_remove)
    from map_of_fold_rename [OF renames_wf m this v(2)] v(1)
    show "map_of (fold rename_command renames (fold remove_command cmds s)) old = None
           \<and> map_of (fold rename_command renames (fold remove_command cmds s)) new = map_of s old"
      by simp
  qed
qed

lemma renames_apart_part_005:
  "set commandsToRemove_part_005 \<inter> (fst ` set renames \<union> snd ` set renames) = {}"
  by (simp add: renames_def commandsToRemove_part_005_def)


lemma updatePackageInfo_cases:
  "updatePackageInfo w = w
   \<or> (\<exists>packageJson p. package_json w = Parsed packageJson \<and> writable w
        \<and> updatePackageInfo w
            = w\<lparr>package_json := Parsed (packageJson\<lparr>name := Some p, description := None,
                                                  version := Some ''0.1.0''\<rparr>),
                 trace := trace w @ [WriteFile PackageJson]\<rparr>)"
  by (auto simp: updatePackageInfo_def updatePackageInfo_body_def catch_log_def readFile_def
        read_package_def write_package_def Let_def
        split: option.splits json_file.splits)

lemma updatePackageInfo_no_project_name:
  assumes "case env_file w of None \<Rightarrow> True
           | Some envContent \<Rightarrow> match_key_line ''PROJECT_NAME='' envContent = None"
  shows "updatePackageInfo w = w"
  using assms
  by (auto simp: updatePackageInfo_def updatePackageInfo_body_def catch_log_def readFile_def
        split: option.splits)

lemma updatePackageInfo_frame:
  "manifest_field scripts (updatePackageInfo w) = manifest_field scripts w"
  "manifest_field other (updatePackageInfo w) = manifest_field other w"
  "env_file (updatePackageInfo w) = env_file w"
  "readme_md (updatePackageInfo w) = readme_md w"
  "license_file (updatePackageInfo w) = license_file w"
  "cleanup_script (updatePackageInfo w) = cleanup_script w"
  "timer_pending (updatePackageInfo w) = timer_pending w"
  "writable (updatePackageInfo w) = writable w"
  using updatePackageInfo_cases [of w] by (auto simp: manifest_field_def)

lemma updatePackageInfo_trace:
  "\<exists>es. trace (updatePackageInfo w) = trace w @ es \<and> set es \<subseteq> {WriteFile PackageJson}"
  using updatePackageInfo_cases [of w] by auto

lemma cleanupTemplateCommands_part_004_cases:
  "cleanupTemplateCommands_part_004 w = w
   \<or> (\<exists>packageJson. cleanupTemplateCommands_part_004 w
          = w\<lparr>package_json := Parsed packageJson, trace := trace w @ [WriteFile PackageJson]\<rparr>)"
  by (auto simp: cleanupTemplateCommands_part_004_def cleanupTemplateCommands_part_004_body_def
        catch_log_def read_package_def write_package_def Let_def
        split: json_file.splits)

lemma cleanupReadme_cases:
  "cleanupReadme substitute w = w
   \<or> (\<exists>readme. cleanupReadme substitute w
          = w\<lparr>readme_md := Some readme, trace := trace w @ [WriteFile ReadmeMd]\<rparr>)"
  by (auto simp: cleanupReadme_def cleanupReadme_body_def catch_log_def readFile_def
        write_readme_def Let_def split: option.splits)

lemma cleanupLicense_cases:
  "cleanupLicense w = w
   \<or> cleanupLicense w = w\<lparr>license_file := False, trace := trace w @ [Unlink LicenseFile]\<rparr>"
  by (auto simp: cleanupLicense_def catch_log_def unlink_license_def)

lemma cleanup_steps_trace:
  "\<exists>es. trace (cleanupLicense (cleanupReadme substitute (cleanupTemplateCommands_part_004 w)))
           = trace w @ es
        \<and> set es \<subseteq> {WriteFile PackageJson, WriteFile ReadmeMd, Unlink LicenseFile}"
proof -
  let ?w2 = "cleanupTemplateCommands_part_004 w"
  let ?w3 = "cleanupReadme substitute ?w2"
  obtain e1 where e1: "trace ?w2 = trace w @ e1" "set e1 \<subseteq> {WriteFile PackageJson}"
    using cleanupTemplateCommands_part_004_cases [of w] by auto
  obtain e2 where e2: "trace ?w3 = trace ?w2 @ e2" "set e2 \<subseteq> {WriteFile ReadmeMd}"
    using cleanupReadme_cases [of substitute ?w2] by auto
  obtain e3 where e3: "trace (cleanupLicense ?w3) = trace ?w3 @ e3" "set e3 \<subseteq> {Unlink LicenseFile}"
    using cleanupLicense_cases [of ?w3] by auto
  have "trace (cleanupLicense ?w3) = trace w @ (e1 @ e2 @ e3)"
    by (simp add: e1 e2 e3)
  moreover have "set (e1 @ e2 @ e3) \<subseteq> {WriteFile PackageJson, WriteFile ReadmeMd, Unlink LicenseFile}"
    using e1(2) e2(2) e3(2) by auto
  ultimately show ?thesis by blast
qed

lemma cleanup_steps_script:
  "cleanup_script (cleanupLicense (cleanupReadme substitute (cleanupTemplateCommands_part_004 w)))
     = cleanup_script w"
proof -
  let ?w2 = "cleanupTemplateCommands_part_004 w"
  let ?w3 = "cleanupReadme substitute ?w2"
  have "cleanup_script ?w2 = cleanup_script w"
    using cleanupTemplateCommands_part_004_cases [of w] by auto
  moreover have "cleanup_script ?w3 = cleanup_script ?w2"
    using cleanupReadme_cases [of substitute ?w2] by auto
  moreover have "cleanup_script (cleanupLicense ?w3) = cleanup_script ?w3"
    using cleanupLicense_cases [of ?w3] by auto
  ultimately show ?thesis by simp
qed

lemma main_part_004_template:
  "isTemplateRepo (updatePackageInfo w) \<Longrightarrow> main_part_004 substitute w = updatePackageInfo w"
  by (simp add: main_part_004_def)

lemma main_part_004_project:
  "\<not> isTemplateRepo (updatePackageInfo w) \<Longrightarrow>
   main_part_004 substitute w
     = selfDelete (cleanupLicense (cleanupReadme substitute
         (cleanupTemplateCommands_part_004 (updatePackageInfo w))))"
  by (simp add: main_part_004_def)

lemma cleanupTemplate_nuxtship:
  assumes "package_json w = Parsed packageJson" and "name packageJson = Some ''nuxtship''"
  shows "cleanupTemplate w = w"
  using assms
  by (simp add: cleanupTemplate_def cleanupTemplate_body_def catch_log_def read_package_def)

lemma isTemplateRepo_nuxtship:
  assumes "package_json w = Parsed packageJson" and "name packageJson = Some ''nuxtship''"
  shows "isTemplateRepo w"
  using assms by (simp add: isTemplateRepo_def read_package_def)

lemma main_cleanup_template_dirty:
  "hasUncommittedChanges w \<Longrightarrow> main_cleanup_template w = updatePackageInfo w"
  by (simp add: main_cleanup_template_def)

subsection \<open>Evaluations at the concrete trees\<close>

lemma project_tree_facts:
  "package_json project_tree = Parsed project_manifest"
  "writable project_tree"
  "name project_manifest \<noteq> Some ''nuxtship''"
  "list_all (has_command (scripts_on_disk project_tree)) commandsToRemove"
  "list_all (has_command (scripts_on_disk project_tree)) (map fst renames)"
  by code_simp+

lemma project_tree_cleaned:
  "scripts_on_disk (cleanupTemplateCommands project_tree)
     = [(''dev'', ''nuxt dev''),
        (''build'', ''nuxt build''),
        (''infra:start'', ''docker compose up -d''),
        (''infra:stop'', ''docker compose stop''),
        (''infra:restart'', ''docker compose restart''),
        (''infra:logs'', ''docker compose logs -f''),
        (''infra:status'', ''docker compose ps'')]"
  "scripts_on_disk (cleanupTemplate project_tree)
     = [(''dev'', ''nuxt dev''),
        (''build'', ''nuxt build''),
        (''setup:auth:provision'', ''bun run deployment/scripts/provision.ts''),
        (''infra:start'', ''docker compose up -d''),
        (''infra:stop'', ''docker compose stop''),
        (''infra:restart'', ''docker compose restart''),
        (''infra:logs'', ''docker compose logs -f''),
        (''infra:status'', ''docker compose ps'')]"
  by code_simp+

lemma upstream_tree_facts:
  "package_json upstream_tree = Parsed template_manifest"
  "package_json unnamed_tree = Parsed template_manifest"
  "name template_manifest = Some ''nuxtship''"
  "env_file unnamed_tree = Some ''APP_DOMAIN=app.localhost''"
  "match_key_line ''PROJECT_NAME='' ''APP_DOMAIN=app.localhost'' = None"
  "isTemplateRepo (updatePackageInfo upstream_tree)"
  by code_simp+

lemma upstream_tree_updated:
  "updatePackageInfo upstream_tree
     = upstream_tree\<lparr>package_json :=
         Parsed (template_manifest\<lparr>description := None, version := Some ''0.1.0''\<rparr>),
         trace := [WriteFile PackageJson]\<rparr>"
  by code_simp

lemma dirty_tree_facts:
  "hasUncommittedChanges dirty_tree"
  "hasUncommittedChanges (dirty_tree\<lparr>env_file := Some ''APP_DOMAIN=app.localhost''\<rparr>)"
  "manifest_field scripts dirty_tree = Some (Some template_scripts)"
  by code_simp+

lemma project_tree_run:
  "isTemplateRepo (updatePackageInfo project_tree) = False"
  "trace (main_part_004 substitute_nothing project_tree)
     = [WriteFile PackageJson, WriteFile PackageJson, WriteFile ReadmeMd,
        Unlink LicenseFile, SetTimeout CleanupScript]"
  "trace (run_part_004 substitute_nothing project_tree)
     = [WriteFile PackageJson, WriteFile PackageJson, WriteFile ReadmeMd,
        Unlink LicenseFile, SetTimeout CleanupScript, Unlink CleanupScript]"
  by code_simp+

subsection \<open>The command set\<close>

text \<open>
  C4 (as the code has it). When the manifest is read and written, every command of the
  removal list that is in the manifest with a command that is not empty is gone after
  \<^verbatim>\<open>cleanupTemplateCommands\<close>, and every key of the rename map that is there with a
  command that is not empty is gone as well, its new name carrying the old command. The
  older \<^verbatim>\<open>cleanupTemplate\<close> of part 005, on a manifest not named \<^verbatim>\<open>nuxtship\<close>, does
  the same with its own removal list, which has eight entries: it keeps
  \<^verbatim>\<open>setup:auth:provision\<close>. All other fields of the manifest stay as they were.
\<close>

theorem C4_command_cleanup:
  assumes "package_json w = Parsed packageJson" and "writable w"
  shows "package_json (cleanupTemplateCommands w)
           = Parsed (packageJson\<lparr>scripts := Some (scripts_on_disk (cleanupTemplateCommands w))\<rparr>)
         \<and> (\<forall>cmd\<in>set commandsToRemove. has_command (scripts_on_disk w) cmd \<longrightarrow>
               map_of (scripts_on_disk (cleanupTemplateCommands w)) cmd = None)
         \<and> (\<forall>(old, new)\<in>set renames. has_command (scripts_on_disk w) old \<longrightarrow>
               map_of (scripts_on_disk (cleanupTemplateCommands w)) old = None
               \<and> map_of (scripts_on_disk (cleanupTemplateCommands w)) new
                   = map_of (scripts_on_disk w) old)
         \<and> (name packageJson \<noteq> Some ''nuxtship'' \<longrightarrow>
               package_json (cleanupTemplate w)
                 = Parsed (packageJson\<lparr>scripts := Some (scripts_on_disk (cleanupTemplate w))\<rparr>)
               \<and> (\<forall>cmd\<in>set commandsToRemove_part_005. has_command (scripts_on_disk w) cmd \<longrightarrow>
                     map_of (scripts_on_disk (cleanupTemplate w)) cmd = None)
               \<and> map_of (scripts_on_disk (cleanupTemplate w)) ''setup:auth:provision''
                   = map_of (scripts_on_disk w) ''setup:auth:provision''
               \<and> (\<forall>(old, new)\<in>set renames. has_command (scripts_on_disk w) old \<longrightarrow>
                     map_of (scripts_on_disk (cleanupTemplate w)) old = None
                     \<and> map_of (scripts_on_disk (cleanupTemplate w)) new
                         = map_of (scripts_on_disk w) old))"
proof -
  let ?s = "scripts_or_empty packageJson"
  have before: "scripts_on_disk w = ?s"
    using assms(1) by (simp add: scripts_on_disk_def)
  have after: "scripts_on_disk (cleanupTemplateCommands w)
                 = fold rename_command renames (fold remove_command commandsToRemove ?s)"
    by (simp add: cleanupTemplateCommands_written [OF assms] scripts_on_disk_def
          scripts_or_empty_def)
  have doc: "package_json (cleanupTemplateCommands w)
               = Parsed (packageJson\<lparr>scripts := Some (scripts_on_disk (cleanupTemplateCommands w))\<rparr>)"
    unfolding after by (simp add: cleanupTemplateCommands_written [OF assms])
  note v2 = removed_then_renamed [OF renames_apart, of ?s]
  have part_005: ?thesis if nt: "name packageJson \<noteq> Some ''nuxtship''"
  proof -
    have after': "scripts_on_disk (cleanupTemplate w)
                   = fold rename_command renames (fold remove_command commandsToRemove_part_005 ?s)"
      by (simp add: cleanupTemplate_written [OF assms nt] scripts_on_disk_def
            scripts_or_empty_def)
    have doc': "package_json (cleanupTemplate w)
                 = Parsed (packageJson\<lparr>scripts := Some (scripts_on_disk (cleanupTemplate w))\<rparr>)"
      unfolding after' by (simp add: cleanupTemplate_written [OF assms nt])
    have kept: "map_of (scripts_on_disk (cleanupTemplate w)) ''setup:auth:provision''
                  = map_of (scripts_on_disk w) ''setup:auth:provision''"
    proof -
      have "''setup:auth:provision'' \<notin> fst ` set renames"
        "''setup:auth:provision'' \<notin> snd ` set renames"
        "''setup:auth:provision'' \<notin> set commandsToRemove_part_005"
        by (simp_all add: renames_def commandsToRemove_part_005_def)
      then show ?thesis
        unfolding after' before by (simp add: map_of_fold_rename_other map_of_fold_remove)
    qed
    note v1 = removed_then_renamed [OF renames_apart_part_005, of ?s]
    show ?thesis
      using doc v2 doc' v1 kept unfolding after after' before by blast
  qed
  show ?thesis
  proof (cases "name packageJson = Some ''nuxtship''")
    case True
    then show ?thesis using doc v2 unfolding after before by blast
  next
    case False
    then show ?thesis by (rule part_005)
  qed
qed

theorem C4_command_cleanup_witness:
  "package_json project_tree = Parsed project_manifest
   \<and> writable project_tree
   \<and> name project_manifest \<noteq> Some ''nuxtship''
   \<and> list_all (has_command (scripts_on_disk project_tree)) commandsToRemove
   \<and> list_all (has_command (scripts_on_disk project_tree)) (map fst renames)
   \<and> map_of (scripts_on_disk (cleanupTemplateCommands project_tree)) ''init'' = None
   \<and> map_of (scripts_on_disk (cleanupTemplateCommands project_tree)) ''setup:auth:provision'' = None
   \<and> map_of (scripts_on_disk (cleanupTemplateCommands project_tree)) ''containers:logs'' = None
   \<and> map_of (scripts_on_disk (cleanupTemplateCommands project_tree)) ''infra:logs''
       = Some ''docker compose logs -f''
   \<and> map_of (scripts_on_disk (cleanupTemplate project_tree)) ''setup:auth'' = None
   \<and> map_of (scripts_on_disk (cleanupTemplate project_tree)) ''containers:status'' = None
   \<and> map_of (scripts_on_disk (cleanupTemplate project_tree)) ''infra:status''
       = Some ''docker compose ps''"
proof -
  note inst = C4_command_cleanup [OF project_tree_facts(1,2)]
  note removed = inst [THEN conjunct2, THEN conjunct1]
  note renamed = inst [THEN conjunct2, THEN conjunct2, THEN conjunct1]
  note part_005 = inst [THEN conjunct2, THEN conjunct2, THEN conjunct2, THEN mp,
                        OF project_tree_facts(3)]
  note removed_005 = part_005 [THEN conjunct2, THEN conjunct1]
  note renamed_005 = part_005 [THEN conjunct2, THEN conjunct2, THEN conjunct2]
  have has: "has_command (scripts_on_disk project_tree) ''init''"
    "has_command (scripts_on_disk project_tree) ''setup:auth:provision''"
    "has_command (scripts_on_disk project_tree) ''setup:auth''"
    "has_command (scripts_on_disk project_tree) ''containers:logs''"
    "has_command (scripts_on_disk project_tree) ''containers:status''"
    by code_simp+
  have before:
    "map_of (scripts_on_disk project_tree) ''containers:logs'' = Some ''docker compose logs -f''"
    "map_of (scripts_on_disk project_tree) ''containers:status'' = Some ''docker compose ps''"
    by code_simp+
  have r1: "map_of (scripts_on_disk (cleanupTemplateCommands project_tree)) ''init'' = None"
    using bspec [OF removed, of "''init''"] has(1) by (simp add: commandsToRemove_def)
  have r2: "map_of (scripts_on_disk (cleanupTemplateCommands project_tree))
              ''setup:auth:provision'' = None"
    using bspec [OF removed, of "''setup:auth:provision''"] has(2)
    by (simp add: commandsToRemove_def)
  have r3: "map_of (scripts_on_disk (cleanupTemplateCommands project_tree)) ''containers:logs'' = None
            \<and> map_of (scripts_on_disk (cleanupTemplateCommands project_tree)) ''infra:logs''
                = Some ''docker compose logs -f''"
    using bspec [OF renamed, of "(''containers:logs'', ''infra:logs'')"] has(4) before(1)
    by (simp add: renames_def)
  have r4: "map_of (scripts_on_disk (cleanupTemplate project_tree)) ''setup:auth'' = None"
    using bspec [OF removed_005, of "''setup:auth''"] has(3)
    by (simp add: commandsToRemove_part_005_def)
  have r5: "map_of (scripts_on_disk (cleanupTemplate project_tree)) ''containers:status'' = None
            \<and> map_of (scripts_on_disk (cleanupTemplate project_tree)) ''infra:status''
                = Some ''docker compose ps''"
    using bspec [OF renamed_005, of "(''containers:status'', ''infra:status'')"] has(5) before(2)
    by (simp add: renames_def)
  from project_tree_facts r1 r2 r3 r4 r5 show ?thesis
    by (intro conjI) (simp_all only: simp_thms)
qed

text \<open>
  The claim as stated, at \<open>project_tree\<close>: all nine commands are in the manifest, and
  after \<^verbatim>\<open>cleanupTemplate\<close> of part 005 \<^verbatim>\<open>setup:auth:provision\<close> is still there. At
  \<open>blank_init_tree\<close> the \<^verbatim>\<open>init\<close> key has the empty command; the test
  \<^verbatim>\<open>if (scripts[cmd])\<close> of \<^verbatim>\<open>cleanupTemplateCommands\<close> takes it for absent and the
  key stays.
\<close>

theorem C4_command_cleanup_counterexample:
  "name project_manifest \<noteq> Some ''nuxtship''
   \<and> list_all (has_key (scripts_on_disk project_tree)) commandsToRemove
   \<and> map_of (scripts_on_disk (cleanupTemplate project_tree)) ''setup:auth:provision''
       = Some ''bun run deployment/scripts/provision.ts''
   \<and> list_all (has_key (scripts_on_disk blank_init_tree)) commandsToRemove
   \<and> map_of (scripts_on_disk (cleanupTemplateCommands blank_init_tree)) ''init'' = Some []"
  by code_simp

subsection \<open>The template name\<close>

text \<open>
  C1 (as the code has it). For a manifest named \<^verbatim>\<open>nuxtship\<close>: \<^verbatim>\<open>cleanupTemplate\<close> of
  part 005 leaves the whole working tree as it is. \<^verbatim>\<open>main\<close> of part 004 tests the
  name only after \<^verbatim>\<open>updatePackageInfo\<close>: it leaves the whole tree as it is when the
  environment file is missing or has no \<^verbatim>\<open>PROJECT_NAME\<close> line; and whenever the name
  is still \<^verbatim>\<open>nuxtship\<close> after the update, the run is that update alone: README,
  license file and script are untouched, no timer is set, and the commands and the other
  fields of the manifest are kept.
\<close>

theorem C1_template_name_guard:
  assumes "package_json w = Parsed packageJson" and "name packageJson = Some ''nuxtship''"
  shows "cleanupTemplate w = w
         \<and> ((case env_file w of None \<Rightarrow> True
              | Some envContent \<Rightarrow> match_key_line ''PROJECT_NAME='' envContent = None) \<longrightarrow>
             main_part_004 substitute w = w)
         \<and> (isTemplateRepo (updatePackageInfo w) \<longrightarrow>
             main_part_004 substitute w = updatePackageInfo w
             \<and> readme_md (main_part_004 substitute w) = readme_md w
             \<and> license_file (main_part_004 substitute w) = license_file w
             \<and> cleanup_script (main_part_004 substitute w) = cleanup_script w
             \<and> timer_pending (main_part_004 substitute w) = timer_pending w
             \<and> manifest_field scripts (main_part_004 substitute w) = manifest_field scripts w
             \<and> manifest_field other (main_part_004 substitute w) = manifest_field other w)"
proof (intro conjI impI)
  show "cleanupTemplate w = w"
    using assms by (rule cleanupTemplate_nuxtship)
next
  assume "case env_file w of None \<Rightarrow> True
          | Some envContent \<Rightarrow> match_key_line ''PROJECT_NAME='' envContent = None"
  then have same: "updatePackageInfo w = w"
    by (rule updatePackageInfo_no_project_name)
  have "isTemplateRepo (updatePackageInfo w)"
    unfolding same using assms by (rule isTemplateRepo_nuxtship)
  then show "main_part_004 substitute w = w"
    by (simp add: main_part_004_template same)
next
  assume t: "isTemplateRepo (updatePackageInfo w)"
  note eq = main_part_004_template [OF t, of substitute]
  show "main_part_004 substitute w = updatePackageInfo w" by (rule eq)
  show "readme_md (main_part_004 substitute w) = readme_md w"
    unfolding eq by (rule updatePackageInfo_frame)
  show "license_file (main_part_004 substitute w) = license_file w"
    unfolding eq by (rule updatePackageInfo_frame)
  show "cleanup_script (main_part_004 substitute w) = cleanup_script w"
    unfolding eq by (rule updatePackageInfo_frame)
  show "timer_pending (main_part_004 substitute w) = timer_pending w"
    unfolding eq by (rule updatePackageInfo_frame)
  show "manifest_field scripts (main_part_004 substitute w) = manifest_field scripts w"
    unfolding eq by (rule updatePackageInfo_frame)
  show "manifest_field other (main_part_004 substitute w) = manifest_field other w"
    unfolding eq by (rule updatePackageInfo_frame)
qed

theorem C1_template_name_guard_witness:
  "package_json upstream_tree = Parsed template_manifest
   \<and> package_json unnamed_tree = Parsed template_manifest
   \<and> name template_manifest = Some ''nuxtship''
   \<and> env_file unnamed_tree = Some ''APP_DOMAIN=app.localhost''
   \<and> match_key_line ''PROJECT_NAME='' ''APP_DOMAIN=app.localhost'' = None
   \<and> isTemplateRepo (updatePackageInfo upstream_tree)
   \<and> cleanupTemplate upstream_tree = upstream_tree
   \<and> main_part_004 substitute_nothing unnamed_tree = unnamed_tree
   \<and> main_part_004 substitute_nothing upstream_tree
       = upstream_tree\<lparr>package_json :=
           Parsed (template_manifest\<lparr>description := None, version := Some ''0.1.0''\<rparr>),
           trace := [WriteFile PackageJson]\<rparr>"
proof -
  note up = C1_template_name_guard [OF upstream_tree_facts(1,3), of substitute_nothing]
  note un = C1_template_name_guard [OF upstream_tree_facts(2,3), of substitute_nothing]
  have a: "cleanupTemplate upstream_tree = upstream_tree"
    by (rule up [THEN conjunct1])
  have b: "main_part_004 substitute_nothing unnamed_tree = unnamed_tree"
    using un [THEN conjunct2, THEN conjunct1] upstream_tree_facts(4,5) by simp
  have c: "main_part_004 substitute_nothing upstream_tree = updatePackageInfo upstream_tree"
    using up [THEN conjunct2, THEN conjunct2] upstream_tree_facts(6) by simp
  from upstream_tree_facts a b c show ?thesis
    by (simp only: upstream_tree_updated simp_thms)
qed

text \<open>
  The claim as stated, at \<open>fresh_clone_tree\<close>: the manifest is named \<^verbatim>\<open>nuxtship\<close>
  and the environment file names the project \<^verbatim>\<open>My Cool App!\<close>. \<^verbatim>\<open>main\<close> of part 004
  renames the manifest first, then finds no template and goes on: the manifest is written
  twice, the README is written, the license file is removed and the timer is set.
  \<^verbatim>\<open>main\<close> of \<^verbatim>\<open>cleanup-template.ts\<close> has no test of the name at all: with nothing
  pending in git it removes and renames the commands and renames the manifest.
\<close>

theorem C1_template_name_guard_counterexample:
  "manifest_field name fresh_clone_tree = Some (Some ''nuxtship'')
   \<and> env_file fresh_clone_tree = Some ''PROJECT_NAME=My Cool App!''
   \<and> package_json (main_part_004 substitute_nothing fresh_clone_tree)
       = Parsed (template_manifest\<lparr>name := Some ''my-cool-app'', description := None,
                   version := Some ''0.1.0'',
                   scripts := Some (AList.update ''init''
                     ''bun run setup:env && bun run setup:full'' template_scripts)\<rparr>)
   \<and> trace (main_part_004 substitute_nothing fresh_clone_tree)
       = [WriteFile PackageJson, WriteFile PackageJson, WriteFile ReadmeMd,
          Unlink LicenseFile, SetTimeout CleanupScript]
   \<and> hasUncommittedChanges fresh_clone_tree = False
   \<and> package_json (main_cleanup_template fresh_clone_tree)
       = Parsed (template_manifest\<lparr>name := Some ''my-cool-app'', description := None,
                   version := Some ''0.1.0'',
                   scripts := Some [(''dev'', ''nuxt dev''),
                     (''build'', ''nuxt build''),
                     (''infra:start'', ''docker compose up -d''),
                     (''infra:stop'', ''docker compose stop''),
                     (''infra:restart'', ''docker compose restart''),
                     (''infra:logs'', ''docker compose logs -f''),
                     (''infra:status'', ''docker compose ps'')]\<rparr>)"
  by code_simp

subsection \<open>Uncommitted changes\<close>

text \<open>
  C2 (as the code has it). When git reports a pending change, \<^verbatim>\<open>main\<close> of
  \<^verbatim>\<open>cleanup-template.ts\<close> skips the command cleanup and still runs
  \<^verbatim>\<open>updatePackageInfo\<close>: the run is that update alone. The commands and the other
  fields of the manifest and the README are unchanged; and when the environment file is
  missing or has no \<^verbatim>\<open>PROJECT_NAME\<close> line, the whole working tree is unchanged.
\<close>

theorem C2_uncommitted_changes:
  assumes "hasUncommittedChanges w"
  shows "main_cleanup_template w = updatePackageInfo w
         \<and> manifest_field scripts (main_cleanup_template w) = manifest_field scripts w
         \<and> manifest_field other (main_cleanup_template w) = manifest_field other w
         \<and> readme_md (main_cleanup_template w) = readme_md w
         \<and> ((case env_file w of None \<Rightarrow> True
              | Some envContent \<Rightarrow> match_key_line ''PROJECT_NAME='' envContent = None) \<longrightarrow>
             main_cleanup_template w = w)"
proof -
  note eq = main_cleanup_template_dirty [OF assms]
  show ?thesis
    unfolding eq
    by (simp add: updatePackageInfo_frame updatePackageInfo_no_project_name)
qed

theorem C2_uncommitted_changes_witness:
  "hasUncommittedChanges dirty_tree
   \<and> hasUncommittedChanges (dirty_tree\<lparr>env_file := Some ''APP_DOMAIN=app.localhost''\<rparr>)
   \<and> manifest_field scripts (main_cleanup_template dirty_tree) = Some (Some template_scripts)
   \<and> main_cleanup_template (dirty_tree\<lparr>env_file := Some ''APP_DOMAIN=app.localhost''\<rparr>)
       = dirty_tree\<lparr>env_file := Some ''APP_DOMAIN=app.localhost''\<rparr>"
proof -
  have a: "manifest_field scripts (main_cleanup_template dirty_tree) = Some (Some template_scripts)"
    using C2_uncommitted_changes [OF dirty_tree_facts(1), THEN conjunct2, THEN conjunct1]
      dirty_tree_facts(3) by simp
  have b: "main_cleanup_template (dirty_tree\<lparr>env_file := Some ''APP_DOMAIN=app.localhost''\<rparr>)
             = dirty_tree\<lparr>env_file := Some ''APP_DOMAIN=app.localhost''\<rparr>"
    using C2_uncommitted_changes [OF dirty_tree_facts(2), THEN conjunct2, THEN conjunct2,
            THEN conjunct2, THEN conjunct2] upstream_tree_facts(5)
    by simp
  from dirty_tree_facts(1,2) a b show ?thesis by (simp only: simp_thms)
qed

text \<open>
  The claim as stated, at \<open>dirty_tree\<close>: git reports the manifest as modified, and the
  run rewrites its name, drops its description and resets its version.
\<close>

theorem C2_uncommitted_changes_counterexample:
  "hasUncommittedChanges dirty_tree
   \<and> package_json dirty_tree = Parsed project_manifest
   \<and> package_json (main_cleanup_template dirty_tree)
       = Parsed (project_manifest\<lparr>name := Some ''my-cool-app'', description := None,
                   version := Some ''0.1.0''\<rparr>)
   \<and> trace (main_cleanup_template dirty_tree) = [WriteFile PackageJson]
   \<and> manifest_field name dirty_tree = Some (Some ''my-app'')
   \<and> manifest_field version dirty_tree = Some (Some ''1.4.0'')
   \<and> manifest_field description dirty_tree = Some (Some ''Starter template'')"
  by code_simp

subsection \<open>Self-deletion\<close>

text \<open>
  C6 (as the code has it). In \<^verbatim>\<open>main\<close> of part 004: when the manifest is named
  \<^verbatim>\<open>nuxtship\<close> after \<^verbatim>\<open>updatePackageInfo\<close>, the run is that update alone and no
  timer is set. Otherwise the timer for the deletion is set, and setting it is the last
  effect of \<^verbatim>\<open>main\<close>: before it come only writes of the manifest and of the README and
  the removal of the license file, each of which has either happened or failed without
  stopping the run. \<^verbatim>\<open>main\<close> itself never removes the script.
\<close>

theorem C6_self_delete_last:
  "(isTemplateRepo (updatePackageInfo w) \<longrightarrow>
      main_part_004 substitute w = updatePackageInfo w
      \<and> timer_pending (main_part_004 substitute w) = timer_pending w
      \<and> (\<exists>es. trace (main_part_004 substitute w) = trace w @ es
                \<and> set es \<subseteq> {WriteFile PackageJson}))
   \<and> (\<not> isTemplateRepo (updatePackageInfo w) \<longrightarrow>
      timer_pending (main_part_004 substitute w)
      \<and> (\<exists>es. trace (main_part_004 substitute w) = trace w @ es @ [SetTimeout CleanupScript]
                \<and> set es \<subseteq> {WriteFile PackageJson, WriteFile ReadmeMd, Unlink LicenseFile}))
   \<and> cleanup_script (main_part_004 substitute w) = cleanup_script w"
proof (intro conjI impI)
  assume t: "isTemplateRepo (updatePackageInfo w)"
  show "main_part_004 substitute w = updatePackageInfo w"
    using t by (rule main_part_004_template)
  show "timer_pending (main_part_004 substitute w) = timer_pending w"
    by (simp add: main_part_004_template [OF t] updatePackageInfo_frame)
  show "\<exists>es. trace (main_part_004 substitute w) = trace w @ es \<and> set es \<subseteq> {WriteFile PackageJson}"
    using updatePackageInfo_trace [of w] by (simp add: main_part_004_template [OF t])
next
  assume p: "\<not> isTemplateRepo (updatePackageInfo w)"
  let ?w1 = "updatePackageInfo w"
  let ?w4 = "cleanupLicense (cleanupReadme substitute (cleanupTemplateCommands_part_004 ?w1))"
  show "timer_pending (main_part_004 substitute w)"
    by (simp add: main_part_004_project [OF p] selfDelete_def)
  obtain e0 where e0: "trace ?w1 = trace w @ e0" "set e0 \<subseteq> {WriteFile PackageJson}"
    using updatePackageInfo_trace [of w] by auto
  obtain e1 where e1: "trace ?w4 = trace ?w1 @ e1"
    "set e1 \<subseteq> {WriteFile PackageJson, WriteFile ReadmeMd, Unlink LicenseFile}"
    using cleanup_steps_trace [of substitute ?w1] by auto
  have "trace (main_part_004 substitute w) = trace w @ (e0 @ e1) @ [SetTimeout CleanupScript]"
    by (simp add: main_part_004_project [OF p] selfDelete_def e0 e1)
  moreover have "set (e0 @ e1) \<subseteq> {WriteFile PackageJson, WriteFile ReadmeMd, Unlink LicenseFile}"
    using e0(2) e1(2) by auto
  ultimately show "\<exists>es. trace (main_part_004 substitute w) = trace w @ es @ [SetTimeout CleanupScript]
                \<and> set es \<subseteq> {WriteFile PackageJson, WriteFile ReadmeMd, Unlink LicenseFile}"
    by blast
next
  show "cleanup_script (main_part_004 substitute w) = cleanup_script w"
  proof (cases "isTemplateRepo (updatePackageInfo w)")
    case True
    then show ?thesis by (simp add: main_part_004_template updatePackageInfo_frame)
  next
    case False
    then show ?thesis
      by (simp add: main_part_004_project selfDelete_def cleanup_steps_script
            updatePackageInfo_frame)
  qed
qed

theorem C6_self_delete_last_witness:
  "isTemplateRepo (updatePackageInfo upstream_tree)
   \<and> main_part_004 substitute_nothing upstream_tree = updatePackageInfo upstream_tree
   \<and> timer_pending (main_part_004 substitute_nothing upstream_tree) = False
   \<and> \<not> isTemplateRepo (updatePackageInfo project_tree)
   \<and> timer_pending (main_part_004 substitute_nothing project_tree)
   \<and> trace (main_part_004 substitute_nothing project_tree)
       = [WriteFile PackageJson, WriteFile PackageJson, WriteFile ReadmeMd,
          Unlink LicenseFile, SetTimeout CleanupScript]
   \<and> cleanup_script (main_part_004 substitute_nothing project_tree)"
proof -
  note up = C6_self_delete_last [of upstream_tree substitute_nothing]
  note pr = C6_self_delete_last [of project_tree substitute_nothing]
  have t: "timer_pending upstream_tree = False" "cleanup_script project_tree" by code_simp+
  note tpl = up [THEN conjunct1, THEN mp, OF upstream_tree_facts(6)]
  have a: "main_part_004 substitute_nothing upstream_tree = updatePackageInfo upstream_tree"
    "timer_pending (main_part_004 substitute_nothing upstream_tree) = False"
    using tpl [THEN conjunct1] tpl [THEN conjunct2, THEN conjunct1] t(1) by simp_all
  have b: "timer_pending (main_part_004 substitute_nothing project_tree)"
    using pr [THEN conjunct2, THEN conjunct1] project_tree_run(1) by simp
  have c: "cleanup_script (main_part_004 substitute_nothing project_tree)"
    using pr [THEN conjunct2, THEN conjunct2] t(2) by simp
  from upstream_tree_facts(6) a b c project_tree_run(1,2) show ?thesis
    by (simp only: simp_thms)
qed

text \<open>
  The claim as stated, at \<open>no_readme_tree\<close>: there is no README, \<^verbatim>\<open>cleanupReadme\<close>
  fails and the timer is set all the same. At \<open>fresh_clone_tree\<close> the manifest is named
  \<^verbatim>\<open>nuxtship\<close> when the run starts, and the timer is set and the script removed.
\<close>

theorem C6_self_delete_last_counterexample:
  "readme_md no_readme_tree = None
   \<and> readme_md (main_part_004 substitute_nothing no_readme_tree) = None
   \<and> trace (main_part_004 substitute_nothing no_readme_tree)
       = [WriteFile PackageJson, WriteFile PackageJson, Unlink LicenseFile,
          SetTimeout CleanupScript]
   \<and> timer_pending (main_part_004 substitute_nothing no_readme_tree)
   \<and> manifest_field name fresh_clone_tree = Some (Some ''nuxtship'')
   \<and> timer_pending (main_part_004 substitute_nothing fresh_clone_tree)
   \<and> cleanup_script (run_part_004 substitute_nothing fresh_clone_tree) = False"
  by code_simp


end
